theory Spec2Isabelle
  imports Complex_Main
begin

section \<open>Numbers\<close>

text \<open>
  The TypeScript type \<open>number\<close>. A value is a real number or one of the three special
  values of IEEE 754 arithmetic. The arithmetic below is IEEE 754's on these values with
  two idealisations: finite results are not rounded, and zero carries no sign (a non-zero
  number divided by zero gives the infinity of the dividend's sign). Nothing throws:
  division by zero gives an infinity or \<open>NaN\<close>.
\<close>

datatype number = Fin real | PosInf | NegInf | NaN

fun number_uminus :: "number \<Rightarrow> number" where
  "number_uminus (Fin a) = Fin (- a)"
| "number_uminus PosInf = NegInf"
| "number_uminus NegInf = PosInf"
| "number_uminus NaN = NaN"

fun number_plus :: "number \<Rightarrow> number \<Rightarrow> number" where
  "number_plus NaN b = NaN"
| "number_plus a NaN = NaN"
| "number_plus (Fin a) (Fin b) = Fin (a + b)"
| "number_plus (Fin a) b = b"
| "number_plus a (Fin b) = a"
| "number_plus PosInf PosInf = PosInf"
| "number_plus NegInf NegInf = NegInf"
| "number_plus PosInf NegInf = NaN"
| "number_plus NegInf PosInf = NaN"

definition signed_infinity :: "bool \<Rightarrow> number" where
  "signed_infinity positive = (if positive then PosInf else NegInf)"

fun number_times :: "number \<Rightarrow> number \<Rightarrow> number" where
  "number_times NaN b = NaN"
| "number_times a NaN = NaN"
| "number_times (Fin a) (Fin b) = Fin (a * b)"
| "number_times (Fin a) PosInf = (if a = 0 then NaN else signed_infinity (0 < a))"
| "number_times (Fin a) NegInf = (if a = 0 then NaN else signed_infinity (a < 0))"
| "number_times PosInf (Fin b) = (if b = 0 then NaN else signed_infinity (0 < b))"
| "number_times NegInf (Fin b) = (if b = 0 then NaN else signed_infinity (b < 0))"
| "number_times PosInf PosInf = PosInf"
| "number_times NegInf NegInf = PosInf"
| "number_times PosInf NegInf = NegInf"
| "number_times NegInf PosInf = NegInf"

fun number_divide :: "number \<Rightarrow> number \<Rightarrow> number" where
  "number_divide NaN b = NaN"
| "number_divide a NaN = NaN"
| "number_divide (Fin a) (Fin b) =
     (if b = 0 then (if a = 0 then NaN else signed_infinity (0 < a)) else Fin (a / b))"
| "number_divide (Fin a) b = Fin 0"
| "number_divide PosInf (Fin b) = signed_infinity (0 \<le> b)"
| "number_divide NegInf (Fin b) = signed_infinity (b < 0)"
| "number_divide a b = NaN"

fun number_less :: "number \<Rightarrow> number \<Rightarrow> bool" where
  "number_less NaN b = False"
| "number_less a NaN = False"
| "number_less (Fin a) (Fin b) = (a < b)"
| "number_less a NegInf = False"
| "number_less PosInf b = False"
| "number_less a b = True"

fun number_sqrt :: "number \<Rightarrow> number" where
  "number_sqrt (Fin a) = (if a < 0 then NaN else Fin (sqrt a))"
| "number_sqrt PosInf = PosInf"
| "number_sqrt a = NaN"

instantiation number :: "{zero, one, plus, uminus, minus, times, inverse, ord}"
begin

definition zero_number_def [simp]: "0 = Fin 0"

definition one_number_def [simp]: "1 = Fin 1"

definition plus_number_def [simp]: "a + b = number_plus a b"

definition uminus_number_def [simp]: "- a = number_uminus a"

definition minus_number_def [simp]: "a - b = number_plus a (number_uminus b)"

definition times_number_def [simp]: "a * b = number_times a b"

definition divide_number_def [simp]: "a div b = number_divide a b"

definition inverse_number_def [simp]: "inverse a = number_divide (Fin 1) a"

definition less_number_def [simp]: "a < b = number_less a b"

definition less_eq_number_def [simp]: "a \<le> b = (number_less a b \<or> (a = b \<and> a \<noteq> NaN))"

instance ..

end

section \<open>Vectors, curve points and the draw target\<close>

text \<open>
  \<open>Vector2\<close> and \<open>CurvePoint\<close> are declared in other modules; they are value types
  with the fields the segment reads.
\<close>

record Vector2 =
  x_coord :: number
  y_coord :: number

record CurvePoint =
  position :: Vector2
  tangent_cp :: Vector2

text \<open>
  Modelled from the spec: \<open>Vector2.normalized\<close> is missing from the sources. The spec
  calls the tangent the normalized derivative, a unit vector, undefined where the
  derivative is the zero vector: the vector divided by its magnitude.
\<close>

definition magnitude :: "Vector2 \<Rightarrow> number" where
  "magnitude v = number_sqrt (x_coord v * x_coord v + y_coord v * y_coord v)"

definition normalized :: "Vector2 \<Rightarrow> Vector2" where
  "normalized v = \<lparr>x_coord = x_coord v / magnitude v, y_coord = y_coord v / magnitude v\<rparr>"

text \<open>
  The draw target (\<open>CanvasRenderingContext2D | Path2D\<close>) is the list of path commands it
  has received. \<open>points[0]\<close> of an empty array is \<open>undefined\<close> in JavaScript, so the
  argument of a move is optional.
\<close>

datatype path_command =
    MoveTo "Vector2 option"
  | LineTo Vector2
  | QuadraticCurveTo Vector2 Vector2
  | BezierCurveTo Vector2 Vector2 Vector2

type_synonym path = "path_command list"

text \<open>
  Modelled from the spec: the helper \<open>moveTo\<close> of \<open>../utils\<close> is missing from the
  sources; it moves the draw cursor of the target to the point.
\<close>

definition moveTo :: "path \<Rightarrow> Vector2 option \<Rightarrow> path" where
  "moveTo target p = target @ [MoveTo p]"

text \<open>JavaScript's \<open>xs[i]\<close> and \<open>xs.at(i)\<close>: \<open>undefined\<close> out of range.\<close>

definition Array_index :: "'a list \<Rightarrow> nat \<Rightarrow> 'a option" where
  "Array_index xs i = (if i < length xs then Some (xs ! i) else None)"

definition Array_at :: "'a list \<Rightarrow> int \<Rightarrow> 'a option" where
  "Array_at xs i =
     (let n = int (length xs); j = (if i < 0 then n + i else i)
      in if 0 \<le> j \<and> j < n then Some (xs ! nat j) else None)"

section \<open>PolynomialSegment\<close>

text \<open>
  \<open>Polynomial2D\<close> and \<open>UniformPolynomialCurveSampler\<close> are classes of other modules.
  The segment calls two operations of each, which are the fields here.
\<close>

record Polynomial2D =
  eval_curve :: "number \<Rightarrow> Vector2"
  evalDerivative :: "number \<Rightarrow> Vector2"

record UniformPolynomialCurveSampler =
  pointAtDistance :: "number \<Rightarrow> CurvePoint"
  distanceToT :: "number \<Rightarrow> number"

text \<open>
  The fields of the abstract class. \<open>pointSampler\<close> is \<open>None\<close> as long as the
  constructor has not assigned it (the field is \<open>undefined\<close> then). A concrete subclass
  extends the record with its own fields.
\<close>

record PolynomialSegment =
  curve :: Polynomial2D
  length_seg :: number
  pointSampler :: "UniformPolynomialCurveSampler option"

text \<open>The abstract members \<open>points\<close>, \<open>split\<close> and \<open>doDraw\<close>, as a subclass implements them.\<close>

record 'a abstract_members =
  points :: "'a PolynomialSegment_scheme \<Rightarrow> Vector2 list"
  split :: "'a PolynomialSegment_scheme \<Rightarrow> number \<Rightarrow>
    'a PolynomialSegment_scheme \<times> 'a PolynomialSegment_scheme"
  doDraw :: "'a PolynomialSegment_scheme \<Rightarrow> path \<Rightarrow> path"

datatype error = TypeError

text \<open>
  The constructor: the parameter properties \<open>curve\<close> and \<open>length\<close> are assigned, then the
  sampler is constructed from \<open>this\<close> and assigned. The sampler's constructor is the
  first argument.
\<close>

definition PolynomialSegment_new ::
  "(PolynomialSegment \<Rightarrow> UniformPolynomialCurveSampler) \<Rightarrow> Polynomial2D \<Rightarrow> number \<Rightarrow>
   PolynomialSegment" where
  "PolynomialSegment_new UniformPolynomialCurveSampler_new curve' length' =
     (let this = \<lparr>curve = curve', length_seg = length', pointSampler = None\<rparr>
      in this\<lparr>pointSampler := Some (UniformPolynomialCurveSampler_new this)\<rparr>)"

definition arcLength :: "'a PolynomialSegment_scheme \<Rightarrow> number" where
  "arcLength this = length_seg this"

definition tangent :: "'a PolynomialSegment_scheme \<Rightarrow> number \<Rightarrow> Vector2" where
  "tangent this t = normalized (evalDerivative (curve this) t)"

definition eval :: "'a PolynomialSegment_scheme \<Rightarrow> number \<Rightarrow> CurvePoint" where
  "eval this t = \<lparr>position = eval_curve (curve this) t, tangent_cp = tangent this t\<rparr>"

text \<open>Reading a method of an unassigned \<open>pointSampler\<close> is JavaScript's \<open>TypeError\<close>.\<close>

definition getPoint :: "'a PolynomialSegment_scheme \<Rightarrow> number \<Rightarrow> error + CurvePoint" where
  "getPoint this distance =
     (case pointSampler this of
        None \<Rightarrow> Inl TypeError
      | Some sampler \<Rightarrow>
          let closestPoint = pointAtDistance sampler (arcLength this * distance)
          in Inr \<lparr>position = position closestPoint, tangent_cp = tangent_cp closestPoint\<rparr>)"

text \<open>
  \<open>draw\<close> returns the draw target as it is after the call together with the tuple the
  source returns. \<open>start !== 0\<close> compares with a constant that is not \<open>NaN\<close>, so it is
  inequality of values.
\<close>

definition draw ::
  "'a abstract_members \<Rightarrow> 'a PolynomialSegment_scheme \<Rightarrow> path \<Rightarrow> number \<Rightarrow> number \<Rightarrow> bool \<Rightarrow>
   error + (path \<times> Vector2 option \<times> Vector2 \<times> Vector2 option \<times> Vector2)" where
  "draw M this target start end' move =
     (case
        (if start \<noteq> 0 \<or> end' \<noteq> 1 then
           (case pointSampler this of
              None \<Rightarrow> Inl TypeError
            | Some sampler \<Rightarrow>
                let startDistance = length_seg this * start;
                    endDistance = length_seg this * end';
                    startT = distanceToT sampler startDistance;
                    endT = distanceToT sampler endDistance;
                    endT = (endT - startT) / (1 - startT);
                    startSegment = snd (split M this startT);
                    curve' = fst (split M startSegment endT)
                in Inr (Some curve', startT, endT, points M curve'))
         else Inr (None, start, end', points M this))
      of
        Inl e \<Rightarrow> Inl e
      | Inr (curve', startT, endT, points') \<Rightarrow>
          let target = (if move then moveTo target (Array_index points' 0) else target);
              target = doDraw M (case curve' of None \<Rightarrow> this | Some c \<Rightarrow> c) target
          in Inr (target, Array_index points' 0, tangent this startT,
                  Array_at points' (- 1), tangent this endT))"

section \<open>The arc-length sampler\<close>

text \<open>
  Modelled from the spec: the class \<open>UniformPolynomialCurveSampler\<close> is missing from the
  sources. The spec describes its table as an ordered sequence of
  (t, cumulative distance, position, tangent), built by sampling the curve at \<open>N\<close>
  uniformly spaced parameters in [0,1] and accumulating the Euclidean lengths of the
  steps between consecutive positions.
\<close>

record sample =
  sample_t :: number
  sample_distance :: number
  sample_position :: Vector2
  sample_tangent :: Vector2

definition Vector2_add :: "Vector2 \<Rightarrow> Vector2 \<Rightarrow> Vector2" where
  "Vector2_add a b = \<lparr>x_coord = x_coord a + x_coord b, y_coord = y_coord a + y_coord b\<rparr>"

definition Vector2_sub :: "Vector2 \<Rightarrow> Vector2 \<Rightarrow> Vector2" where
  "Vector2_sub a b = \<lparr>x_coord = x_coord a - x_coord b, y_coord = y_coord a - y_coord b\<rparr>"

definition Vector2_scale :: "Vector2 \<Rightarrow> number \<Rightarrow> Vector2" where
  "Vector2_scale a k = \<lparr>x_coord = x_coord a * k, y_coord = y_coord a * k\<rparr>"

definition Vector2_lerp :: "Vector2 \<Rightarrow> Vector2 \<Rightarrow> number \<Rightarrow> Vector2" where
  "Vector2_lerp a b k = Vector2_add a (Vector2_scale (Vector2_sub b a) k)"

definition sample_parameters :: "nat \<Rightarrow> number list" where
  "sample_parameters N = map (\<lambda>i. Fin (real i) / Fin (real (N - 1))) [0..<N]"

primrec accumulate :: "Polynomial2D \<Rightarrow> number \<Rightarrow> Vector2 \<Rightarrow> number list \<Rightarrow> sample list" where
  "accumulate c acc previous [] = []"
| "accumulate c acc previous (t # ts) =
     (let p = eval_curve c t;
          acc' = acc + magnitude (Vector2_sub p previous)
      in \<lparr>sample_t = t, sample_distance = acc', sample_position = p,
          sample_tangent = normalized (evalDerivative c t)\<rparr> # accumulate c acc' p ts)"

definition build_samples :: "Polynomial2D \<Rightarrow> nat \<Rightarrow> sample list" where
  "build_samples c N = accumulate c 0 (eval_curve c 0) (sample_parameters N)"

text \<open>
  Modelled from the spec: a distance outside [0, length] clamps; the bracketing pair of
  samples (one at a distance at most d, the next at a distance at least d) is located by binary search over the cumulative
  distances; \<open>distanceToT\<close> interpolates t linearly between the two samples, in the
  proportion in which d falls between their distances, and \<open>pointAtDistance\<close>
  interpolates position and tangent in the same proportion. The spec names no guard for
  two samples at the same distance: the proportion is then a division by zero. A table
  of fewer than two samples has no bracketing pair; the result is \<open>NaN\<close>.
\<close>

definition clamp :: "number \<Rightarrow> number \<Rightarrow> number \<Rightarrow> number" where
  "clamp lo hi v = (if v < lo then lo else if hi < v then hi else v)"

function bracket :: "sample list \<Rightarrow> number \<Rightarrow> nat \<Rightarrow> nat \<Rightarrow> nat" where
  "bracket samples d lo hi =
     (if hi \<le> lo + 1 then lo
      else let mid = (lo + hi) div 2
           in if sample_distance (samples ! mid) \<le> d then bracket samples d mid hi
              else bracket samples d lo mid)"
  by pat_completeness auto
termination
  by (relation "measure (\<lambda>(samples, d, lo, hi). hi - lo)") auto

declare bracket.simps [simp del]

definition proportion :: "sample list \<Rightarrow> number \<Rightarrow> nat \<Rightarrow> number" where
  "proportion samples d i =
     (d - sample_distance (samples ! i)) /
     (sample_distance (samples ! (i + 1)) - sample_distance (samples ! i))"

definition distanceToT_samples :: "number \<Rightarrow> sample list \<Rightarrow> number \<Rightarrow> number" where
  "distanceToT_samples arc samples d =
     (if length samples < 2 then NaN
      else let d = clamp 0 arc d;
               i = bracket samples d 0 (length samples - 1)
           in sample_t (samples ! i) +
              (sample_t (samples ! (i + 1)) - sample_t (samples ! i)) * proportion samples d i)"

definition pointAtDistance_samples :: "number \<Rightarrow> sample list \<Rightarrow> number \<Rightarrow> CurvePoint" where
  "pointAtDistance_samples arc samples d =
     (if length samples < 2
      then \<lparr>position = \<lparr>x_coord = NaN, y_coord = NaN\<rparr>,
            tangent_cp = \<lparr>x_coord = NaN, y_coord = NaN\<rparr>\<rparr>
      else let d = clamp 0 arc d;
               i = bracket samples d 0 (length samples - 1);
               k = proportion samples d i
           in \<lparr>position =
                 Vector2_lerp (sample_position (samples ! i)) (sample_position (samples ! (i + 1))) k,
               tangent_cp =
                 Vector2_lerp (sample_tangent (samples ! i)) (sample_tangent (samples ! (i + 1))) k\<rparr>)"

definition UniformPolynomialCurveSampler_of ::
  "number \<Rightarrow> sample list \<Rightarrow> UniformPolynomialCurveSampler" where
  "UniformPolynomialCurveSampler_of arc samples =
     \<lparr>pointAtDistance = pointAtDistance_samples arc samples,
      distanceToT = distanceToT_samples arc samples\<rparr>"

definition UniformPolynomialCurveSampler_new ::
  "nat \<Rightarrow> PolynomialSegment \<Rightarrow> UniformPolynomialCurveSampler" where
  "UniformPolynomialCurveSampler_new N this =
     UniformPolynomialCurveSampler_of (arcLength this) (build_samples (curve this) N)"

text \<open>
  The table invariant of the spec's data model, for a curve of length \<open>arc\<close>: at
  least two samples, all parameters and distances finite, distances strictly increasing
  from 0 to \<open>arc\<close>, parameters strictly increasing from 0 to 1.
\<close>

fun is_Fin :: "number \<Rightarrow> bool" where
  "is_Fin (Fin a) = True"
| "is_Fin a = False"

fun real_of :: "number \<Rightarrow> real" where
  "real_of (Fin a) = a"
| "real_of a = 0"

definition wf_samples :: "real \<Rightarrow> sample list \<Rightarrow> bool" where
  "wf_samples arc samples =
     (2 \<le> length samples \<and>
      list_all (\<lambda>s. is_Fin (sample_t s) \<and> is_Fin (sample_distance s)) samples \<and>
      sorted_wrt (<) (map (\<lambda>s. real_of (sample_distance s)) samples) \<and>
      sorted_wrt (<) (map (\<lambda>s. real_of (sample_t s)) samples) \<and>
      sample_distance (hd samples) = Fin 0 \<and> sample_distance (last samples) = Fin arc \<and>
      sample_t (hd samples) = Fin 0 \<and> sample_t (last samples) = Fin 1)"

definition finite_Vector2 :: "Vector2 \<Rightarrow> bool" where
  "finite_Vector2 v = (is_Fin (x_coord v) \<and> is_Fin (y_coord v))"

text \<open>The real number that the interpolation of t computes in the bracket at index i.\<close>

definition interpolated_t :: "sample list \<Rightarrow> nat \<Rightarrow> real \<Rightarrow> real" where
  "interpolated_t samples i r =
     real_of (sample_t (samples ! i)) +
     (real_of (sample_t (samples ! (i + 1))) - real_of (sample_t (samples ! i))) *
     ((r - real_of (sample_distance (samples ! i))) /
      (real_of (sample_distance (samples ! (i + 1))) - real_of (sample_distance (samples ! i))))"

section \<open>A quadratic segment\<close>

text \<open>
  Modelled from the spec: the subclass \<open>QuadBezierSegment\<close> is missing from the sources
  (the component \<open>QuadBezier\<close> constructs it from three points and draws the overlay with
  \<open>moveTo\<close> and \<open>quadraticCurveTo\<close>). The spec: a degree-2 polynomial in the Bernstein
  basis of the three control points, split by de Casteljau's construction, each half a
  new segment with its own length, computed by sampling. \<open>N\<close> is the sampler's
  resolution.
\<close>

record QuadBezierSegment = PolynomialSegment +
  p0 :: Vector2
  p1 :: Vector2
  p2 :: Vector2

definition QuadBezier_curve :: "Vector2 \<Rightarrow> Vector2 \<Rightarrow> Vector2 \<Rightarrow> Polynomial2D" where
  "QuadBezier_curve a b c =
     \<lparr>eval_curve = (\<lambda>t.
        Vector2_add (Vector2_add (Vector2_scale a ((1 - t) * (1 - t)))
                                 (Vector2_scale b (Fin 2 * (1 - t) * t)))
                    (Vector2_scale c (t * t))),
      evalDerivative = (\<lambda>t.
        Vector2_add (Vector2_scale (Vector2_sub b a) (Fin 2 * (1 - t)))
                    (Vector2_scale (Vector2_sub c b) (Fin 2 * t)))\<rparr>"

definition sampled_length :: "Polynomial2D \<Rightarrow> nat \<Rightarrow> number" where
  "sampled_length c N =
     (case build_samples c N of [] \<Rightarrow> 0 | s # ss \<Rightarrow> sample_distance (last (s # ss)))"

definition QuadBezierSegment_new ::
  "nat \<Rightarrow> Vector2 \<Rightarrow> Vector2 \<Rightarrow> Vector2 \<Rightarrow> QuadBezierSegment" where
  "QuadBezierSegment_new N a b c =
     (let c2 = QuadBezier_curve a b c
      in PolynomialSegment.extend
           (PolynomialSegment_new (UniformPolynomialCurveSampler_new N) c2 (sampled_length c2 N))
           (QuadBezierSegment.fields a b c))"

definition QuadBezierSegment_members :: "nat \<Rightarrow> unit QuadBezierSegment_ext abstract_members" where
  "QuadBezierSegment_members N =
     \<lparr>points = (\<lambda>this. [p0 this, p1 this, p2 this]),
      split = (\<lambda>this t.
        let a = Vector2_lerp (p0 this) (p1 this) t;
            b = Vector2_lerp (p1 this) (p2 this) t;
            m = Vector2_lerp a b t
        in (QuadBezierSegment_new N (p0 this) a m, QuadBezierSegment_new N m b (p2 this))),
      doDraw = (\<lambda>this target. target @ [QuadraticCurveTo (p1 this) (p2 this)])\<rparr>"

text \<open>
  The quadratic segment with control points (0,0), (1/2,3), (3,4), sampled at resolution 2.
  Its derivative at t is (1 + 4t, 6 - 4t); its two samples are the end points, at
  distances 0 and 5.
\<close>

definition example_segment :: QuadBezierSegment where
  "example_segment = QuadBezierSegment_new 2
     \<lparr>x_coord = Fin 0, y_coord = Fin 0\<rparr> \<lparr>x_coord = Fin (1 / 2), y_coord = Fin 3\<rparr>
     \<lparr>x_coord = Fin 3, y_coord = Fin 4\<rparr>"

definition example_samples :: "sample list" where
  "example_samples =
     [\<lparr>sample_t = Fin 0, sample_distance = Fin 0,
       sample_position = \<lparr>x_coord = Fin 0, y_coord = Fin 0\<rparr>,
       sample_tangent = normalized \<lparr>x_coord = Fin 1, y_coord = Fin 6\<rparr>\<rparr>,
      \<lparr>sample_t = Fin 1, sample_distance = Fin 5,
       sample_position = \<lparr>x_coord = Fin 3, y_coord = Fin 4\<rparr>,
       sample_tangent = normalized \<lparr>x_coord = Fin 5, y_coord = Fin 2\<rparr>\<rparr>]"

text \<open>
  Three more quadratic segments, sampled at resolution 3 (parameters 0, 1/2, 1).
  \<^item> Control points (0,0), (1/2,3), (11,10): the samples are (0,0), (3,4), (11,10), at
    distances 0, 5, 15.
  \<^item> Control points (0,0), (3,0), (2,0): the curve runs to x = 9/4 and back to x = 2; the
    samples are (0,0), (2,0), (2,0), at distances 0, 2, 2.
  \<^item> Control points (1,1), (1,1), (1,1): the degenerate segment; every sample is (1,1), at
    distance 0.
\<close>

definition curved_segment :: QuadBezierSegment where
  "curved_segment = QuadBezierSegment_new 3
     \<lparr>x_coord = Fin 0, y_coord = Fin 0\<rparr> \<lparr>x_coord = Fin (1 / 2), y_coord = Fin 3\<rparr>
     \<lparr>x_coord = Fin 11, y_coord = Fin 10\<rparr>"

definition curved_samples :: "sample list" where
  "curved_samples =
     [\<lparr>sample_t = Fin 0, sample_distance = Fin 0,
       sample_position = \<lparr>x_coord = Fin 0, y_coord = Fin 0\<rparr>,
       sample_tangent = normalized \<lparr>x_coord = Fin 1, y_coord = Fin 6\<rparr>\<rparr>,
      \<lparr>sample_t = Fin (1 / 2), sample_distance = Fin 5,
       sample_position = \<lparr>x_coord = Fin 3, y_coord = Fin 4\<rparr>,
       sample_tangent = normalized \<lparr>x_coord = Fin 11, y_coord = Fin 10\<rparr>\<rparr>,
      \<lparr>sample_t = Fin 1, sample_distance = Fin 15,
       sample_position = \<lparr>x_coord = Fin 11, y_coord = Fin 10\<rparr>,
       sample_tangent = normalized \<lparr>x_coord = Fin 21, y_coord = Fin 14\<rparr>\<rparr>]"

definition retracing_segment :: QuadBezierSegment where
  "retracing_segment = QuadBezierSegment_new 3
     \<lparr>x_coord = Fin 0, y_coord = Fin 0\<rparr> \<lparr>x_coord = Fin 3, y_coord = Fin 0\<rparr>
     \<lparr>x_coord = Fin 2, y_coord = Fin 0\<rparr>"

definition retracing_samples :: "sample list" where
  "retracing_samples =
     [\<lparr>sample_t = Fin 0, sample_distance = Fin 0,
       sample_position = \<lparr>x_coord = Fin 0, y_coord = Fin 0\<rparr>,
       sample_tangent = normalized \<lparr>x_coord = Fin 6, y_coord = Fin 0\<rparr>\<rparr>,
      \<lparr>sample_t = Fin (1 / 2), sample_distance = Fin 2,
       sample_position = \<lparr>x_coord = Fin 2, y_coord = Fin 0\<rparr>,
       sample_tangent = normalized \<lparr>x_coord = Fin 2, y_coord = Fin 0\<rparr>\<rparr>,
      \<lparr>sample_t = Fin 1, sample_distance = Fin 2,
       sample_position = \<lparr>x_coord = Fin 2, y_coord = Fin 0\<rparr>,
       sample_tangent = normalized \<lparr>x_coord = Fin (- 2), y_coord = Fin 0\<rparr>\<rparr>]"



text \<open>
  A segment as the constructors above build it: length and table come from sampling its
  own curve at N parameters. The two conditions on the samples are those under which the
  table satisfies the invariant: finite positions, and no two consecutive samples at the
  same position.
\<close>

definition segment_sampled :: "nat \<Rightarrow> 'a PolynomialSegment_scheme \<Rightarrow> bool" where
  "segment_sampled N this =
     (2 \<le> N \<and>
      pointSampler this =
        Some (UniformPolynomialCurveSampler_of (length_seg this) (build_samples (curve this) N)) \<and>
      length_seg this = sampled_length (curve this) N \<and>
      list_all (\<lambda>t. finite_Vector2 (eval_curve (curve this) t)) (sample_parameters N) \<and>
      distinct_adj (map (eval_curve (curve this)) (sample_parameters N)))"

section \<open>The ranged draw in the spec's words\<close>

text \<open>
  The spec's step 2 of \<open>draw\<close>: convert start and end (fractions of arc length) to
  parameters with the sampler's \<open>distanceToT\<close>; split the curve at startT and keep the
  back half; split that at the rescaled end parameter (endT - startT) / (1 - startT) and
  keep the front half.
\<close>

definition ranged_subcurve ::
  "'a abstract_members \<Rightarrow> 'a PolynomialSegment_scheme \<Rightarrow> UniformPolynomialCurveSampler \<Rightarrow>
   number \<Rightarrow> number \<Rightarrow> 'a PolynomialSegment_scheme" where
  "ranged_subcurve M this sampler start end' =
     (let startT = distanceToT sampler (start * length_seg this);
          endT = distanceToT sampler (end' * length_seg this);
          back = snd (split M this startT)
      in fst (split M back ((endT - startT) / (1 - startT))))"

section \<open>Properties of the segment\<close>

subsection \<open>Arithmetic and evaluation of the example\<close>

lemma number_times_commute: "number_times a b = number_times b a"
  by (cases a; cases b) (simp_all add: mult.commute)

lemma sqrt_25: "sqrt 25 = 5"
  using real_sqrt_abs [of 5] by simp

lemma sample_parameters_2: "sample_parameters 2 = [Fin 0, Fin 1]"
  by (simp add: sample_parameters_def upt_rec numeral_2_eq_2)

lemmas Vector2_ops = Vector2_add_def Vector2_sub_def Vector2_scale_def Vector2_lerp_def

lemmas QuadBezierSegment_defs =
  QuadBezierSegment_members_def QuadBezierSegment_new_def PolynomialSegment.extend_def
  QuadBezierSegment.fields_def PolynomialSegment_new_def Let_def

lemma points_QuadBezierSegment:
  "points (QuadBezierSegment_members N) (QuadBezierSegment_new N a b c) = [a, b, c]"
  by (simp add: QuadBezierSegment_defs)

lemma doDraw_QuadBezierSegment:
  "doDraw (QuadBezierSegment_members N) (QuadBezierSegment_new N a b c) target =
   target @ [QuadraticCurveTo b c]"
  by (simp add: QuadBezierSegment_defs)

lemma split_QuadBezierSegment:
  "split (QuadBezierSegment_members N) (QuadBezierSegment_new N a b c) t =
   (QuadBezierSegment_new N a (Vector2_lerp a b t)
      (Vector2_lerp (Vector2_lerp a b t) (Vector2_lerp b c t) t),
    QuadBezierSegment_new N (Vector2_lerp (Vector2_lerp a b t) (Vector2_lerp b c t) t)
      (Vector2_lerp b c t) c)"
  by (simp add: QuadBezierSegment_defs)

lemma curve_QuadBezierSegment:
  "curve (QuadBezierSegment_new N a b c) = QuadBezier_curve a b c"
  by (simp add: QuadBezierSegment_defs)

lemma example_length: "length_seg example_segment = Fin 5"
  by (simp add: example_segment_def QuadBezierSegment_defs sampled_length_def
      build_samples_def sample_parameters_2 QuadBezier_curve_def Vector2_ops magnitude_def
      sqrt_25)

lemma example_sampler:
  "pointSampler example_segment =
   Some (UniformPolynomialCurveSampler_of (Fin 5) example_samples)"
  by (simp add: example_segment_def QuadBezierSegment_defs example_samples_def
      sampled_length_def build_samples_def sample_parameters_2 QuadBezier_curve_def
      UniformPolynomialCurveSampler_new_def arcLength_def Vector2_ops magnitude_def sqrt_25)

lemma bracket_0_1: "bracket samples d 0 (Suc 0) = 0"
  by (simp add: bracket.simps)

lemma example_distanceToT:
  "0 \<le> d \<Longrightarrow> d \<le> 5 \<Longrightarrow>
   distanceToT (UniformPolynomialCurveSampler_of (Fin 5) example_samples) (Fin d) = Fin (d / 5)"
  by (simp add: UniformPolynomialCurveSampler_of_def distanceToT_samples_def
      example_samples_def clamp_def bracket_0_1 proportion_def Let_def)

lemma example_tangent:
  "tangent example_segment (Fin (1 / 2)) = \<lparr>x_coord = Fin (3 / 5), y_coord = Fin (4 / 5)\<rparr>"
  "tangent example_segment (Fin (3 / 4)) = \<lparr>x_coord = Fin (4 / 5), y_coord = Fin (3 / 5)\<rparr>"
  "tangent example_segment NaN = \<lparr>x_coord = NaN, y_coord = NaN\<rparr>"
  by (simp_all add: tangent_def example_segment_def curve_QuadBezierSegment
      QuadBezier_curve_def Vector2_ops normalized_def magnitude_def sqrt_25)

lemmas example_draw_simps =
  split_QuadBezierSegment points_QuadBezierSegment doDraw_QuadBezierSegment moveTo_def
  Array_index_def Array_at_def

subsection \<open>The claims\<close>

text \<open>
  C9: for every segment, \<open>arcLength\<close> equals \<open>length\<close>. The getter reads the field, which
  is read-only, so this holds of every segment value whatever was done with it.
\<close>

theorem arcLength_eq_length: "arcLength this = length_seg this"
  by (simp add: arcLength_def)

text \<open>
  C10: for every segment and every parameter t, \<open>eval(t)\<close> is the curve's position at t
  together with the normalized derivative at t, and its tangent is \<open>tangent(t)\<close>.
\<close>

theorem eval_position_tangent:
  "eval this t = \<lparr>position = eval_curve (curve this) t,
                   tangent_cp = normalized (evalDerivative (curve this) t)\<rparr> \<and>
   tangent_cp (eval this t) = tangent this t"
  by (simp add: eval_def tangent_def)

text \<open>
  C2: \<open>draw(target, 0, 1)\<close> emits what drawing the unsplit curve emits (after the optional
  move to its first control point, the segment's own \<open>doDraw\<close>), and it performs no
  splitting: the outcome is the same whatever \<open>split\<close> is.
\<close>

theorem draw_full_range:
  "draw M this target 0 1 move =
     Inr (doDraw M this (if move then moveTo target (Array_index (points M this) 0) else target),
          Array_index (points M this) 0, tangent this 0,
          Array_at (points M this) (- 1), tangent this 1) \<and>
   draw (M\<lparr>split := other_split\<rparr>) this target 0 1 move = draw M this target 0 1 move"
  by (simp add: draw_def)

theorem draw_full_range_witness:
  "draw (QuadBezierSegment_members 2) example_segment [] 0 1 True =
     Inr ([MoveTo (Some \<lparr>x_coord = Fin 0, y_coord = Fin 0\<rparr>),
           QuadraticCurveTo \<lparr>x_coord = Fin (1 / 2), y_coord = Fin 3\<rparr>
             \<lparr>x_coord = Fin 3, y_coord = Fin 4\<rparr>],
          Some \<lparr>x_coord = Fin 0, y_coord = Fin 0\<rparr>, tangent example_segment 0,
          Some \<lparr>x_coord = Fin 3, y_coord = Fin 4\<rparr>, tangent example_segment 1)"
  using draw_full_range [of "QuadBezierSegment_members 2" example_segment "[]" True
      "\<lambda>this t. (this, this)"]
  by (simp add: example_segment_def example_draw_simps)

text \<open>
  C1: for a range other than (0, 1), \<open>draw\<close> emits the geometry of the sub-curve of the
  spec's two splits: the optional move to the sub-curve's first control point, then the
  sub-curve's own \<open>doDraw\<close>.
\<close>

theorem draw_partial_range:
  assumes "start \<noteq> 0 \<or> end' \<noteq> 1" and "pointSampler this = Some sampler"
  shows "\<exists>boundaries. draw M this target start end' move =
     Inr (doDraw M (ranged_subcurve M this sampler start end')
            (if move
             then moveTo target (Array_index (points M (ranged_subcurve M this sampler start end')) 0)
             else target),
          boundaries)"
  using assms
  by (auto simp add: draw_def ranged_subcurve_def Let_def number_times_commute)

theorem draw_partial_range_witness:
  "Fin (1 / 2) \<noteq> (0 :: number) \<and>
   pointSampler example_segment =
     Some (UniformPolynomialCurveSampler_of (Fin 5) example_samples) \<and>
   ranged_subcurve (QuadBezierSegment_members 2) example_segment
     (UniformPolynomialCurveSampler_of (Fin 5) example_samples) (Fin (1 / 2)) (Fin (3 / 4)) =
     QuadBezierSegment_new 2 \<lparr>x_coord = Fin 1, y_coord = Fin (5 / 2)\<rparr>
       \<lparr>x_coord = Fin (11 / 8), y_coord = Fin 3\<rparr>
       \<lparr>x_coord = Fin (15 / 8), y_coord = Fin (27 / 8)\<rparr> \<and>
   (\<exists>boundaries.
      draw (QuadBezierSegment_members 2) example_segment [] (Fin (1 / 2)) (Fin (3 / 4)) True =
      Inr ([MoveTo (Some \<lparr>x_coord = Fin 1, y_coord = Fin (5 / 2)\<rparr>),
            QuadraticCurveTo \<lparr>x_coord = Fin (11 / 8), y_coord = Fin 3\<rparr>
              \<lparr>x_coord = Fin (15 / 8), y_coord = Fin (27 / 8)\<rparr>],
           boundaries))"
proof -
  have range: "Fin (1 / 2) \<noteq> 0 \<or> Fin (3 / 4) \<noteq> 1"
    by simp
  have sub: "ranged_subcurve (QuadBezierSegment_members 2) example_segment
     (UniformPolynomialCurveSampler_of (Fin 5) example_samples) (Fin (1 / 2)) (Fin (3 / 4)) =
     QuadBezierSegment_new 2 \<lparr>x_coord = Fin 1, y_coord = Fin (5 / 2)\<rparr>
       \<lparr>x_coord = Fin (11 / 8), y_coord = Fin 3\<rparr>
       \<lparr>x_coord = Fin (15 / 8), y_coord = Fin (27 / 8)\<rparr>"
    by (simp add: ranged_subcurve_def example_length example_distanceToT Let_def)
       (simp add: example_segment_def split_QuadBezierSegment Vector2_ops)
  show ?thesis
    using draw_partial_range [OF range example_sampler,
        of "QuadBezierSegment_members 2" "[]" True]
    by (simp add: sub example_sampler example_draw_simps)
qed

text \<open>
  C3: what \<open>draw\<close> returns. For the full range: the first and last control point and the
  tangents at t = 0 and t = 1 (theorem \<open>draw_full_range\<close>). For a partial range: the
  sub-curve's first and last control point, the tangent of the original curve at startT,
  and the tangent of the original curve at the rescaled parameter
  (endT - startT) / (1 - startT), where the claim has the parameter endT of the end
  distance. The example: start 1/2 and end 3/4 have the parameters 1/2 and 3/4; the
  tangent returned for the end is the one at 1/2, not the one at 3/4.
\<close>

theorem draw_partial_boundaries:
  assumes "start \<noteq> 0 \<or> end' \<noteq> 1" and "pointSampler this = Some sampler"
    and "startT = distanceToT sampler (length_seg this * start)"
    and "endT = distanceToT sampler (length_seg this * end')"
  shows "\<exists>emitted. draw M this target start end' move =
     Inr (emitted,
          Array_index (points M (ranged_subcurve M this sampler start end')) 0,
          tangent this startT,
          Array_at (points M (ranged_subcurve M this sampler start end')) (- 1),
          tangent this ((endT - startT) / (1 - startT)))"
  using assms
  by (auto simp add: draw_def ranged_subcurve_def Let_def number_times_commute)

theorem draw_partial_boundaries_witness:
  "Fin (1 / 2) \<noteq> (0 :: number) \<and>
   distanceToT (UniformPolynomialCurveSampler_of (Fin 5) example_samples)
     (length_seg example_segment * Fin (1 / 2)) = Fin (1 / 2) \<and>
   distanceToT (UniformPolynomialCurveSampler_of (Fin 5) example_samples)
     (length_seg example_segment * Fin (3 / 4)) = Fin (3 / 4) \<and>
   (\<exists>emitted.
      draw (QuadBezierSegment_members 2) example_segment [] (Fin (1 / 2)) (Fin (3 / 4)) True =
      Inr (emitted,
           Some \<lparr>x_coord = Fin 1, y_coord = Fin (5 / 2)\<rparr>,
           \<lparr>x_coord = Fin (3 / 5), y_coord = Fin (4 / 5)\<rparr>,
           Some \<lparr>x_coord = Fin (15 / 8), y_coord = Fin (27 / 8)\<rparr>,
           \<lparr>x_coord = Fin (3 / 5), y_coord = Fin (4 / 5)\<rparr>)) \<and>
   tangent example_segment (Fin (3 / 4)) = \<lparr>x_coord = Fin (4 / 5), y_coord = Fin (3 / 5)\<rparr>"
proof -
  have range: "Fin (1 / 2) \<noteq> 0 \<or> Fin (3 / 4) \<noteq> 1"
    by simp
  have startT: "distanceToT (UniformPolynomialCurveSampler_of (Fin 5) example_samples)
     (length_seg example_segment * Fin (1 / 2)) = Fin (1 / 2)"
    by (simp add: example_length example_distanceToT)
  have endT: "distanceToT (UniformPolynomialCurveSampler_of (Fin 5) example_samples)
     (length_seg example_segment * Fin (3 / 4)) = Fin (3 / 4)"
    by (simp add: example_length example_distanceToT)
  have sub: "ranged_subcurve (QuadBezierSegment_members 2) example_segment
     (UniformPolynomialCurveSampler_of (Fin 5) example_samples) (Fin (1 / 2)) (Fin (3 / 4)) =
     QuadBezierSegment_new 2 \<lparr>x_coord = Fin 1, y_coord = Fin (5 / 2)\<rparr>
       \<lparr>x_coord = Fin (11 / 8), y_coord = Fin 3\<rparr>
       \<lparr>x_coord = Fin (15 / 8), y_coord = Fin (27 / 8)\<rparr>"
    by (simp add: ranged_subcurve_def example_length example_distanceToT Let_def)
       (simp add: example_segment_def split_QuadBezierSegment Vector2_ops)
  have quotient: "(Fin (3 / 4) - Fin (1 / 2)) / (1 - Fin (1 / 2)) = Fin (1 / 2)"
    by simp
  show ?thesis
    using draw_partial_boundaries [OF range example_sampler startT [symmetric] endT [symmetric],
        of "QuadBezierSegment_members 2" "[]" True]
    by (simp only: sub quotient startT endT example_tangent points_QuadBezierSegment)
       (simp add: Array_index_def Array_at_def)
qed

text \<open>
  C8: the constructor constructs the sampler from the new object and assigns it to
  \<open>pointSampler\<close>; the field is not empty after construction. \<open>getPoint\<close> and the ranged
  \<open>draw\<close> read that field: on a constructed segment, and on a subclass object extending
  it, both use the sampler the constructor attached.
\<close>

theorem constructor_attaches_sampler:
  "pointSampler (PolynomialSegment_new new_sampler c len) =
     Some (new_sampler \<lparr>curve = c, length_seg = len, pointSampler = None\<rparr>) \<and>
   getPoint (PolynomialSegment_new new_sampler c len) fraction =
     Inr (pointAtDistance (new_sampler \<lparr>curve = c, length_seg = len, pointSampler = None\<rparr>)
            (len * fraction)) \<and>
   getPoint (PolynomialSegment.extend (PolynomialSegment_new new_sampler c len) own_fields) fraction =
     Inr (pointAtDistance (new_sampler \<lparr>curve = c, length_seg = len, pointSampler = None\<rparr>)
            (len * fraction)) \<and>
   (start \<noteq> 0 \<or> end' \<noteq> 1 \<longrightarrow>
      (\<exists>boundaries.
         draw M (PolynomialSegment.extend (PolynomialSegment_new new_sampler c len) own_fields)
           target start end' move =
         Inr (doDraw M
                (ranged_subcurve M
                   (PolynomialSegment.extend (PolynomialSegment_new new_sampler c len) own_fields)
                   (new_sampler \<lparr>curve = c, length_seg = len, pointSampler = None\<rparr>) start end')
                (if move
                 then moveTo target
                   (Array_index
                      (points M
                         (ranged_subcurve M
                            (PolynomialSegment.extend (PolynomialSegment_new new_sampler c len)
                               own_fields)
                            (new_sampler \<lparr>curve = c, length_seg = len, pointSampler = None\<rparr>)
                            start end')) 0)
                 else target),
              boundaries)))"
  by (auto simp add: PolynomialSegment_new_def getPoint_def arcLength_def draw_def
      ranged_subcurve_def PolynomialSegment.extend_def Let_def number_times_commute)

theorem sampler_attached_at_construction:
  "pointSampler (PolynomialSegment_new (UniformPolynomialCurveSampler_new 2)
     (QuadBezier_curve \<lparr>x_coord = Fin 0, y_coord = Fin 0\<rparr>
        \<lparr>x_coord = Fin (1 / 2), y_coord = Fin 3\<rparr> \<lparr>x_coord = Fin 3, y_coord = Fin 4\<rparr>)
     (Fin 5)) \<noteq> None"
  by (simp add: PolynomialSegment_new_def Let_def)

theorem constructor_attaches_sampler_witness:
  "Fin (1 / 2) \<noteq> (0 :: number) \<and>
   PolynomialSegment.extend
     (PolynomialSegment_new (UniformPolynomialCurveSampler_new 2)
        (QuadBezier_curve \<lparr>x_coord = Fin 0, y_coord = Fin 0\<rparr>
           \<lparr>x_coord = Fin (1 / 2), y_coord = Fin 3\<rparr> \<lparr>x_coord = Fin 3, y_coord = Fin 4\<rparr>)
        (Fin 5))
     (QuadBezierSegment.fields \<lparr>x_coord = Fin 0, y_coord = Fin 0\<rparr>
        \<lparr>x_coord = Fin (1 / 2), y_coord = Fin 3\<rparr> \<lparr>x_coord = Fin 3, y_coord = Fin 4\<rparr>) =
     example_segment \<and>
   UniformPolynomialCurveSampler_new 2
     \<lparr>curve = QuadBezier_curve \<lparr>x_coord = Fin 0, y_coord = Fin 0\<rparr>
        \<lparr>x_coord = Fin (1 / 2), y_coord = Fin 3\<rparr> \<lparr>x_coord = Fin 3, y_coord = Fin 4\<rparr>,
      length_seg = Fin 5, pointSampler = None\<rparr> =
     UniformPolynomialCurveSampler_of (Fin 5) example_samples \<and>
   (\<exists>boundaries.
      draw (QuadBezierSegment_members 2) example_segment [] (Fin (1 / 2)) (Fin (3 / 4)) True =
      Inr ([MoveTo (Some \<lparr>x_coord = Fin 1, y_coord = Fin (5 / 2)\<rparr>),
            QuadraticCurveTo \<lparr>x_coord = Fin (11 / 8), y_coord = Fin 3\<rparr>
              \<lparr>x_coord = Fin (15 / 8), y_coord = Fin (27 / 8)\<rparr>],
           boundaries))"
proof -
  define c where "c = QuadBezier_curve \<lparr>x_coord = Fin 0, y_coord = Fin 0\<rparr>
     \<lparr>x_coord = Fin (1 / 2), y_coord = Fin 3\<rparr> \<lparr>x_coord = Fin 3, y_coord = Fin 4\<rparr>"
  define own_fields where "own_fields = QuadBezierSegment.fields \<lparr>x_coord = Fin 0, y_coord = Fin 0\<rparr>
     \<lparr>x_coord = Fin (1 / 2), y_coord = Fin 3\<rparr> \<lparr>x_coord = Fin 3, y_coord = Fin 4\<rparr>"
  have range: "Fin (1 / 2) \<noteq> 0 \<or> Fin (3 / 4) \<noteq> 1"
    by simp
  have len: "sampled_length c 2 = Fin 5"
    by (simp add: c_def sampled_length_def build_samples_def sample_parameters_2
        QuadBezier_curve_def Vector2_ops magnitude_def sqrt_25 Let_def)
  have object: "PolynomialSegment.extend
      (PolynomialSegment_new (UniformPolynomialCurveSampler_new 2) c (Fin 5)) own_fields =
      example_segment"
    by (simp add: example_segment_def QuadBezierSegment_new_def Let_def c_def [symmetric]
        own_fields_def len)
  have sampler: "UniformPolynomialCurveSampler_new 2
      \<lparr>curve = c, length_seg = Fin 5, pointSampler = None\<rparr> =
      UniformPolynomialCurveSampler_of (Fin 5) example_samples"
    by (simp add: UniformPolynomialCurveSampler_new_def arcLength_def c_def example_samples_def
        build_samples_def sample_parameters_2 QuadBezier_curve_def Vector2_ops magnitude_def
        sqrt_25 Let_def)
  have sub: "ranged_subcurve (QuadBezierSegment_members 2) example_segment
     (UniformPolynomialCurveSampler_of (Fin 5) example_samples) (Fin (1 / 2)) (Fin (3 / 4)) =
     QuadBezierSegment_new 2 \<lparr>x_coord = Fin 1, y_coord = Fin (5 / 2)\<rparr>
       \<lparr>x_coord = Fin (11 / 8), y_coord = Fin 3\<rparr>
       \<lparr>x_coord = Fin (15 / 8), y_coord = Fin (27 / 8)\<rparr>"
    by (simp add: ranged_subcurve_def example_length example_distanceToT Let_def)
       (simp add: example_segment_def split_QuadBezierSegment Vector2_ops)
  have "\<exists>boundaries.
      draw (QuadBezierSegment_members 2) example_segment [] (Fin (1 / 2)) (Fin (3 / 4)) True =
      Inr ([MoveTo (Some \<lparr>x_coord = Fin 1, y_coord = Fin (5 / 2)\<rparr>),
            QuadraticCurveTo \<lparr>x_coord = Fin (11 / 8), y_coord = Fin 3\<rparr>
              \<lparr>x_coord = Fin (15 / 8), y_coord = Fin (27 / 8)\<rparr>],
           boundaries)"
    using constructor_attaches_sampler [where new_sampler = "UniformPolynomialCurveSampler_new 2"
        and c = c and len = "Fin 5" and own_fields = own_fields and start = "Fin (1 / 2)"
        and end' = "Fin (3 / 4)" and M = "QuadBezierSegment_members 2" and target = "[]"
        and move = True]
      range
    unfolding object sampler sub
    by (simp add: example_draw_simps)
  then show ?thesis
    using object sampler by (simp add: c_def own_fields_def)
qed

subsection \<open>The sampler's table\<close>

lemma is_Fin_real_of: "is_Fin a \<Longrightarrow> a = Fin (real_of a)"
  by (cases a) simp_all

lemma wf_samples_length: "wf_samples arc samples \<Longrightarrow> 2 \<le> length samples"
  by (simp add: wf_samples_def)

lemma wf_samples_distance:
  assumes "wf_samples arc samples" and "i < length samples"
  shows "sample_distance (samples ! i) = Fin (real_of (sample_distance (samples ! i)))"
  using assms by (simp add: wf_samples_def list_all_length is_Fin_real_of)

lemma wf_samples_t:
  assumes "wf_samples arc samples" and "i < length samples"
  shows "sample_t (samples ! i) = Fin (real_of (sample_t (samples ! i)))"
  using assms by (simp add: wf_samples_def list_all_length is_Fin_real_of)

lemma wf_samples_distance_less:
  assumes "wf_samples arc samples" and "i < j" and "j < length samples"
  shows "real_of (sample_distance (samples ! i)) < real_of (sample_distance (samples ! j))"
  using assms by (simp add: wf_samples_def sorted_wrt_iff_nth_less)

lemma wf_samples_t_less:
  assumes "wf_samples arc samples" and "i < j" and "j < length samples"
  shows "real_of (sample_t (samples ! i)) < real_of (sample_t (samples ! j))"
  using assms by (simp add: wf_samples_def sorted_wrt_iff_nth_less)

lemma wf_samples_t_le:
  assumes "wf_samples arc samples" and "i \<le> j" and "j < length samples"
  shows "real_of (sample_t (samples ! i)) \<le> real_of (sample_t (samples ! j))"
  using wf_samples_t_less [OF assms(1), of i j] assms(2,3)
  by (cases "i = j") simp_all

lemma wf_samples_distance_le:
  assumes "wf_samples arc samples" and "i \<le> j" and "j < length samples"
  shows "real_of (sample_distance (samples ! i)) \<le> real_of (sample_distance (samples ! j))"
  using wf_samples_distance_less [OF assms(1), of i j] assms(2,3)
  by (cases "i = j") simp_all

lemma wf_samples_first:
  assumes "wf_samples arc samples"
  shows "real_of (sample_distance (samples ! 0)) = 0" and "real_of (sample_t (samples ! 0)) = 0"
proof -
  have "samples \<noteq> []"
    using assms by (auto simp add: wf_samples_def)
  then show "real_of (sample_distance (samples ! 0)) = 0"
    and "real_of (sample_t (samples ! 0)) = 0"
    using assms by (simp_all add: wf_samples_def hd_conv_nth)
qed

lemma wf_samples_last:
  assumes "wf_samples arc samples"
  shows "real_of (sample_distance (samples ! (length samples - 1))) = arc"
    and "real_of (sample_t (samples ! (length samples - 1))) = 1"
proof -
  have "samples \<noteq> []"
    using assms by (auto simp add: wf_samples_def)
  then show "real_of (sample_distance (samples ! (length samples - 1))) = arc"
    and "real_of (sample_t (samples ! (length samples - 1))) = 1"
    using assms by (simp_all add: wf_samples_def last_conv_nth)
qed

lemma bracket_between:
  "wf_samples arc samples \<Longrightarrow> lo < hi \<Longrightarrow> hi < length samples \<Longrightarrow>
    real_of (sample_distance (samples ! lo)) \<le> r \<Longrightarrow>
    r \<le> real_of (sample_distance (samples ! hi)) \<Longrightarrow>
    lo \<le> bracket samples (Fin r) lo hi \<and> bracket samples (Fin r) lo hi < hi \<and>
    real_of (sample_distance (samples ! bracket samples (Fin r) lo hi)) \<le> r \<and>
    r \<le> real_of (sample_distance (samples ! (bracket samples (Fin r) lo hi + 1)))"
proof (induction samples "Fin r" lo hi rule: bracket.induct)
  case (1 samples lo hi)
  show ?case
  proof (cases "hi \<le> lo + 1")
    case True
    with "1.prems" have "hi = lo + 1"
      by simp
    with "1.prems" show ?thesis
      by (simp add: bracket.simps [of samples "Fin r" lo])
  next
    case False
    define mid where "mid = (lo + hi) div 2"
    have mid: "lo < mid" "mid < hi"
      using False by (simp_all add: mid_def)
    then have mid_in: "mid < length samples"
      using "1.prems" by simp
    note assms = "1.prems"(1)
    obtain a where a: "sample_distance (samples ! mid) = Fin a"
      using wf_samples_distance [OF assms mid_in] by blast
    have at_mid: "sample_distance (samples ! mid) \<le> Fin r \<longleftrightarrow>
        real_of (sample_distance (samples ! mid)) \<le> r"
      by (auto simp add: a)
    show ?thesis
    proof (cases "real_of (sample_distance (samples ! mid)) \<le> r")
      case True
      then have step: "bracket samples (Fin r) lo hi = bracket samples (Fin r) mid hi"
        using False at_mid by (simp add: bracket.simps [of samples "Fin r" lo hi] mid_def)
      have "mid \<le> bracket samples (Fin r) mid hi \<and> bracket samples (Fin r) mid hi < hi \<and>
          real_of (sample_distance (samples ! bracket samples (Fin r) mid hi)) \<le> r \<and>
          r \<le> real_of (sample_distance (samples ! (bracket samples (Fin r) mid hi + 1)))"
        using "1.hyps"(1) [OF False mid_def] at_mid True mid "1.prems" assms
        by simp
      with mid step show ?thesis
        by simp
    next
      case below: False
      then have step: "bracket samples (Fin r) lo hi = bracket samples (Fin r) lo mid"
        using False at_mid by (simp add: bracket.simps [of samples "Fin r" lo hi] mid_def)
      have "lo \<le> bracket samples (Fin r) lo mid \<and> bracket samples (Fin r) lo mid < mid \<and>
          real_of (sample_distance (samples ! bracket samples (Fin r) lo mid)) \<le> r \<and>
          r \<le> real_of (sample_distance (samples ! (bracket samples (Fin r) lo mid + 1)))"
        using "1.hyps"(2) [OF False mid_def] at_mid below mid mid_in "1.prems" assms
        by simp
      with mid step show ?thesis
        by simp
    qed
  qed
qed

lemma clamp_inside: "0 \<le> r \<Longrightarrow> r \<le> arc \<Longrightarrow> clamp (Fin 0) (Fin arc) (Fin r) = Fin r"
  by (simp add: clamp_def)

lemma clamp_above: "0 \<le> arc \<Longrightarrow> arc \<le> r \<Longrightarrow> clamp (Fin 0) (Fin arc) (Fin r) = Fin arc"
  by (simp add: clamp_def)

lemma clamp_below: "0 \<le> arc \<Longrightarrow> r \<le> 0 \<Longrightarrow> clamp (Fin 0) (Fin arc) (Fin r) = Fin 0"
  by (auto simp add: clamp_def)

lemma proportion_finite:
  assumes "wf_samples arc samples" and "i + 1 < length samples"
  shows "proportion samples (Fin r) i =
    Fin ((r - real_of (sample_distance (samples ! i))) /
         (real_of (sample_distance (samples ! (i + 1))) - real_of (sample_distance (samples ! i))))"
proof -
  have i: "i < length samples"
    using assms(2) by simp
  have less: "real_of (sample_distance (samples ! i)) < real_of (sample_distance (samples ! (i + 1)))"
    using wf_samples_distance_less [OF assms(1) _ assms(2), of i] by simp
  obtain a b where ab: "sample_distance (samples ! i) = Fin a"
      "sample_distance (samples ! Suc i) = Fin b"
    using wf_samples_distance [OF assms(1) i] wf_samples_distance [OF assms(1) assms(2)]
    by auto
  show ?thesis
    using less by (simp add: proportion_def ab)
qed

lemma distanceToT_samples_inside:
  assumes "wf_samples arc samples" and "0 \<le> r" and "r \<le> arc"
  shows "distanceToT_samples (Fin arc) samples (Fin r) =
    Fin (interpolated_t samples (bracket samples (Fin r) 0 (length samples - 1)) r)"
proof -
  define i where "i = bracket samples (Fin r) 0 (length samples - 1)"
  have n: "2 \<le> length samples"
    using assms(1) by (rule wf_samples_length)
  have "0 \<le> i \<and> i < length samples - 1 \<and>
      real_of (sample_distance (samples ! i)) \<le> r \<and>
      r \<le> real_of (sample_distance (samples ! (i + 1)))"
    unfolding i_def
    using n assms(2,3) wf_samples_first(1) [OF assms(1)] wf_samples_last(1) [OF assms(1)]
    by (intro bracket_between [OF assms(1)]) simp_all
  then have i: "i + 1 < length samples"
    by auto
  then have i': "i < length samples"
    by simp
  obtain a b where ab: "sample_t (samples ! i) = Fin a" "sample_t (samples ! Suc i) = Fin b"
    using wf_samples_t [OF assms(1) i'] wf_samples_t [OF assms(1) i] by auto
  have "distanceToT_samples (Fin arc) samples (Fin r) =
      sample_t (samples ! i) +
      (sample_t (samples ! (i + 1)) - sample_t (samples ! i)) * proportion samples (Fin r) i"
    using n by (simp add: distanceToT_samples_def clamp_inside [OF assms(2,3)] i_def Let_def)
  also have "\<dots> = Fin (interpolated_t samples i r)"
    by (simp add: proportion_finite [OF assms(1) i] ab interpolated_t_def)
  finally show ?thesis
    by (simp add: i_def)
qed

lemma interpolated_t_bounds:
  assumes "wf_samples arc samples" and "i + 1 < length samples"
    and "real_of (sample_distance (samples ! i)) \<le> r"
    and "r \<le> real_of (sample_distance (samples ! (i + 1)))"
  shows "real_of (sample_t (samples ! i)) \<le> interpolated_t samples i r"
    and "interpolated_t samples i r \<le> real_of (sample_t (samples ! (i + 1)))"
proof -
  define a where "a = real_of (sample_distance (samples ! i))"
  define b where "b = real_of (sample_distance (samples ! (i + 1)))"
  define u where "u = real_of (sample_t (samples ! i))"
  define v where "v = real_of (sample_t (samples ! (i + 1)))"
  have ab: "a < b"
    unfolding a_def b_def using wf_samples_distance_less [OF assms(1) _ assms(2), of i] by simp
  have uv: "u < v"
    unfolding u_def v_def using wf_samples_t_less [OF assms(1) _ assms(2), of i] by simp
  have k0: "0 \<le> (r - a) / (b - a)"
    using ab assms(3) by (simp add: a_def)
  have k1: "(r - a) / (b - a) \<le> 1"
    using ab assms(4) by (simp add: b_def)
  have eq: "interpolated_t samples i r = u + (v - u) * ((r - a) / (b - a))"
    by (simp add: interpolated_t_def a_def b_def u_def v_def)
  have "0 \<le> (v - u) * ((r - a) / (b - a))"
    using uv k0 by (intro mult_nonneg_nonneg) simp_all
  then show "real_of (sample_t (samples ! i)) \<le> interpolated_t samples i r"
    by (simp add: eq u_def)
  have "(v - u) * ((r - a) / (b - a)) \<le> (v - u) * 1"
    using uv k1 by (intro mult_left_mono) simp_all
  then show "interpolated_t samples i r \<le> real_of (sample_t (samples ! (i + 1)))"
    by (simp add: eq v_def)
qed

lemma interpolated_t_mono:
  assumes "wf_samples arc samples" and "i + 1 < length samples" and "r1 \<le> r2"
  shows "interpolated_t samples i r1 \<le> interpolated_t samples i r2"
proof -
  define a where "a = real_of (sample_distance (samples ! i))"
  define b where "b = real_of (sample_distance (samples ! (i + 1)))"
  define u where "u = real_of (sample_t (samples ! i))"
  define v where "v = real_of (sample_t (samples ! (i + 1)))"
  have ab: "a < b"
    unfolding a_def b_def using wf_samples_distance_less [OF assms(1) _ assms(2), of i] by simp
  have uv: "u < v"
    unfolding u_def v_def using wf_samples_t_less [OF assms(1) _ assms(2), of i] by simp
  have "(r1 - a) / (b - a) \<le> (r2 - a) / (b - a)"
    using ab assms(3) by (simp add: divide_right_mono)
  then have "(v - u) * ((r1 - a) / (b - a)) \<le> (v - u) * ((r2 - a) / (b - a))"
    using uv by (intro mult_left_mono) simp_all
  then show ?thesis
    by (simp add: interpolated_t_def a_def b_def u_def v_def)
qed

lemma distanceToT_samples_mono:
  assumes wf: "wf_samples arc samples" and "0 \<le> d1" and "d1 < d2" and "d2 \<le> arc"
  shows "distanceToT_samples (Fin arc) samples (Fin d1) \<le>
         distanceToT_samples (Fin arc) samples (Fin d2)"
proof -
  define i where "i = bracket samples (Fin d1) 0 (length samples - 1)"
  define j where "j = bracket samples (Fin d2) 0 (length samples - 1)"
  have n: "2 \<le> length samples"
    using wf by (rule wf_samples_length)
  have i: "i < length samples - 1 \<and> real_of (sample_distance (samples ! i)) \<le> d1 \<and>
      d1 \<le> real_of (sample_distance (samples ! (i + 1)))"
    unfolding i_def
    using n assms(2-4) wf_samples_first(1) [OF wf] wf_samples_last(1) [OF wf]
      bracket_between [OF wf, of 0 "length samples - 1" d1]
    by simp
  have j: "j < length samples - 1 \<and> real_of (sample_distance (samples ! j)) \<le> d2 \<and>
      d2 \<le> real_of (sample_distance (samples ! (j + 1)))"
    unfolding j_def
    using n assms(2-4) wf_samples_first(1) [OF wf] wf_samples_last(1) [OF wf]
      bracket_between [OF wf, of 0 "length samples - 1" d2]
    by simp
  have i_in: "i + 1 < length samples" and j_in: "j + 1 < length samples"
    using i j by auto
  have not_after: "i \<le> j"
  proof (rule ccontr)
    assume "\<not> i \<le> j"
    then have "j + 1 \<le> i"
      by simp
    then have "real_of (sample_distance (samples ! (j + 1))) \<le>
        real_of (sample_distance (samples ! i))"
      using i_in by (intro wf_samples_distance_le [OF wf]) simp_all
    with i j assms(3) show False
      by simp
  qed
  have "interpolated_t samples i d1 \<le> interpolated_t samples j d2"
  proof (cases "i = j")
    case True
    then show ?thesis
      using interpolated_t_mono [OF wf j_in, of d1 d2] assms(3) by simp
  next
    case False
    then have "i + 1 \<le> j"
      using not_after by simp
    then have "real_of (sample_t (samples ! (i + 1))) \<le> real_of (sample_t (samples ! j))"
      using j_in by (intro wf_samples_t_le [OF wf]) simp_all
    moreover have "interpolated_t samples i d1 \<le> real_of (sample_t (samples ! (i + 1)))"
      using interpolated_t_bounds(2) [OF wf i_in] i by simp
    moreover have "real_of (sample_t (samples ! j)) \<le> interpolated_t samples j d2"
      using interpolated_t_bounds(1) [OF wf j_in] j by simp
    ultimately show ?thesis
      by simp
  qed
  then show ?thesis
    using distanceToT_samples_inside [OF wf, of d1] distanceToT_samples_inside [OF wf, of d2]
      assms(2-4)
    by (auto simp add: i_def j_def)
qed

lemma accumulate_positions:
  "map sample_position (accumulate c acc previous ts) = map (eval_curve c) ts"
  by (induction ts arbitrary: acc previous) (simp_all add: Let_def)

lemma build_samples_positions:
  assumes "2 \<le> N"
  shows "sample_position (hd (build_samples c N)) = eval_curve c (Fin 0)"
    and "sample_position (last (build_samples c N)) = eval_curve c (Fin 1)"
proof -
  have not_empty: "sample_parameters N \<noteq> []"
    using assms by (auto simp add: sample_parameters_def)
  then have built: "build_samples c N \<noteq> []"
    using accumulate_positions [of c 0 "eval_curve c 0" "sample_parameters N"]
    by (auto simp add: build_samples_def simp del: zero_number_def)
  have first: "hd (sample_parameters N) = Fin 0"
    using assms by (simp add: sample_parameters_def hd_map upt_conv_Cons)
  have final: "last (sample_parameters N) = Fin 1"
    using assms by (simp add: sample_parameters_def last_map)
  have "sample_position (hd (build_samples c N)) = hd (map sample_position (build_samples c N))"
    using built by (simp add: hd_map)
  also have "\<dots> = eval_curve c (hd (sample_parameters N))"
    using not_empty by (simp add: build_samples_def accumulate_positions hd_map)
  finally show "sample_position (hd (build_samples c N)) = eval_curve c (Fin 0)"
    by (simp add: first)
  have "sample_position (last (build_samples c N)) =
      last (map sample_position (build_samples c N))"
    using built by (simp add: last_map)
  also have "\<dots> = eval_curve c (last (sample_parameters N))"
    using not_empty by (simp add: build_samples_def accumulate_positions last_map)
  finally show "sample_position (last (build_samples c N)) = eval_curve c (Fin 1)"
    by (simp add: final)
qed

lemma length_build_samples: "length (build_samples c N) = N"
proof -
  have "length (map sample_position (build_samples c N)) = length (sample_parameters N)"
    unfolding build_samples_def accumulate_positions by simp
  then show ?thesis
    by (simp add: sample_parameters_def)
qed

lemma Vector2_lerp_ends:
  assumes "finite_Vector2 a" and "finite_Vector2 b"
  shows "Vector2_lerp a b (Fin 0) = a" and "Vector2_lerp a b (Fin 1) = b"
proof -
  obtain xa ya xb yb where "x_coord a = Fin xa" "y_coord a = Fin ya"
      "x_coord b = Fin xb" "y_coord b = Fin yb"
    using assms by (metis finite_Vector2_def is_Fin_real_of)
  then show "Vector2_lerp a b (Fin 0) = a" and "Vector2_lerp a b (Fin 1) = b"
    by (simp_all add: Vector2_ops)
qed

lemma pointAtDistance_samples_first:
  assumes wf: "wf_samples arc samples"
    and finite: "list_all (\<lambda>s. finite_Vector2 (sample_position s)) samples"
  shows "position (pointAtDistance_samples (Fin arc) samples (Fin 0)) =
    sample_position (hd samples)"
proof -
  define i where "i = bracket samples (Fin 0) 0 (length samples - 1)"
  have n: "2 \<le> length samples"
    using wf by (rule wf_samples_length)
  have arc: "0 \<le> arc"
    using wf_samples_distance_le [OF wf, of 0 "length samples - 1"] n
      wf_samples_first(1) [OF wf] wf_samples_last(1) [OF wf]
    by simp
  have i: "i < length samples - 1 \<and> real_of (sample_distance (samples ! i)) \<le> 0"
    unfolding i_def
    using n arc wf_samples_first(1) [OF wf] wf_samples_last(1) [OF wf]
      bracket_between [OF wf, of 0 "length samples - 1" 0]
    by simp
  have "i = 0"
  proof (rule ccontr)
    assume "i \<noteq> 0"
    then have "real_of (sample_distance (samples ! 0)) < real_of (sample_distance (samples ! i))"
      using i by (intro wf_samples_distance_less [OF wf]) auto
    with i wf_samples_first(1) [OF wf] show False
      by simp
  qed
  have k: "proportion samples (Fin 0) 0 = Fin 0"
    using proportion_finite [OF wf, of 0 0] n wf_samples_first(1) [OF wf]
    by simp
  have "0 < length samples" and "Suc 0 < length samples"
    using n by auto
  then have fin: "finite_Vector2 (sample_position (samples ! 0))"
      "finite_Vector2 (sample_position (samples ! Suc 0))"
    using finite by (simp_all add: list_all_length)
  have "position (pointAtDistance_samples (Fin arc) samples (Fin 0)) =
      Vector2_lerp (sample_position (samples ! i)) (sample_position (samples ! Suc i))
        (proportion samples (Fin 0) i)"
    unfolding i_def using n
    by (simp add: pointAtDistance_samples_def clamp_inside [OF order_refl arc] Let_def)
  also have "\<dots> = sample_position (samples ! 0)"
    using \<open>i = 0\<close> by (simp add: k Vector2_lerp_ends(1) [OF fin])
  also have "\<dots> = sample_position (hd samples)"
    using n by (cases samples) simp_all
  finally show ?thesis .
qed

lemma pointAtDistance_samples_last:
  assumes wf: "wf_samples arc samples"
    and finite: "list_all (\<lambda>s. finite_Vector2 (sample_position s)) samples"
  shows "position (pointAtDistance_samples (Fin arc) samples (Fin arc)) =
    sample_position (last samples)"
proof -
  define i where "i = bracket samples (Fin arc) 0 (length samples - 1)"
  have n: "2 \<le> length samples"
    using wf by (rule wf_samples_length)
  have arc: "0 \<le> arc"
    using wf_samples_distance_le [OF wf, of 0 "length samples - 1"] n
      wf_samples_first(1) [OF wf] wf_samples_last(1) [OF wf]
    by simp
  have i: "i < length samples - 1 \<and> arc \<le> real_of (sample_distance (samples ! (i + 1)))"
    unfolding i_def
    using n arc wf_samples_first(1) [OF wf] wf_samples_last(1) [OF wf]
      bracket_between [OF wf, of 0 "length samples - 1" arc]
    by simp
  have "i + 1 = length samples - 1"
  proof (rule ccontr)
    assume "i + 1 \<noteq> length samples - 1"
    then have "real_of (sample_distance (samples ! (i + 1))) <
        real_of (sample_distance (samples ! (length samples - 1)))"
      using i by (intro wf_samples_distance_less [OF wf]) auto
    with i wf_samples_last(1) [OF wf] show False
      by simp
  qed
  then have last_index: "Suc i = length samples - 1"
    by simp
  have i_in: "i + 1 < length samples"
    using i by auto
  have below: "real_of (sample_distance (samples ! i)) < arc"
    using wf_samples_distance_less [OF wf, of i "i + 1"] i_in last_index
      wf_samples_last(1) [OF wf]
    by simp
  have k: "proportion samples (Fin arc) i = Fin 1"
    using proportion_finite [OF wf i_in, of arc] below last_index wf_samples_last(1) [OF wf]
    by simp
  have fin: "finite_Vector2 (sample_position (samples ! i))"
      "finite_Vector2 (sample_position (samples ! Suc i))"
    using finite i_in by (simp_all add: list_all_length)
  have "position (pointAtDistance_samples (Fin arc) samples (Fin arc)) =
      Vector2_lerp (sample_position (samples ! i)) (sample_position (samples ! Suc i))
        (proportion samples (Fin arc) i)"
    unfolding i_def using n
    by (simp add: pointAtDistance_samples_def clamp_inside [OF arc order_refl] Let_def)
  also have "\<dots> = sample_position (samples ! Suc i)"
    by (simp only: k Vector2_lerp_ends(2) [OF fin])
  also have "\<dots> = sample_position (samples ! (length samples - 1))"
    by (simp only: last_index)
  also have "\<dots> = sample_position (last samples)"
    using n by (cases samples) (simp_all add: last_conv_nth)
  finally show ?thesis .
qed

lemma wf_example_samples: "wf_samples 5 example_samples"
  by (simp add: wf_samples_def example_samples_def)

lemma example_build_samples: "build_samples (curve example_segment) 2 = example_samples"
  by (simp add: example_segment_def curve_QuadBezierSegment example_samples_def
      build_samples_def sample_parameters_2 QuadBezier_curve_def Vector2_ops magnitude_def
      sqrt_25 Let_def)

subsection \<open>The table built from a curve\<close>

lemma magnitude_difference:
  assumes "finite_Vector2 a" and "finite_Vector2 b"
  shows "\<exists>m. magnitude (Vector2_sub a b) = Fin m \<and> 0 \<le> m \<and> (m = 0 \<longleftrightarrow> a = b)"
proof -
  obtain xa ya xb yb where ab: "x_coord a = Fin xa" "y_coord a = Fin ya"
      "x_coord b = Fin xb" "y_coord b = Fin yb"
    using assms by (metis finite_Vector2_def is_Fin_real_of)
  have nonneg: "0 \<le> (xa - xb) * (xa - xb) + (ya - yb) * (ya - yb)"
    by simp
  have eq: "a = b \<longleftrightarrow> xa = xb \<and> ya = yb"
    using ab by (auto intro: Vector2.equality)
  have "magnitude (Vector2_sub a b) =
      Fin (sqrt ((xa - xb) * (xa - xb) + (ya - yb) * (ya - yb)))"
    using nonneg by (simp add: magnitude_def Vector2_sub_def ab not_less)
  moreover have "sqrt ((xa - xb) * (xa - xb) + (ya - yb) * (ya - yb)) = 0 \<longleftrightarrow> a = b"
    using nonneg by (simp add: eq sum_squares_eq_zero_iff)
  ultimately show ?thesis
    using nonneg by auto
qed

lemma accumulate_ts: "map sample_t (accumulate c acc previous ts) = ts"
  by (induction ts arbitrary: acc previous) (simp_all add: Let_def)

lemma accumulate_distances:
  assumes "finite_Vector2 previous"
    and "list_all (\<lambda>t. finite_Vector2 (eval_curve c t)) ts"
    and "distinct_adj (map (eval_curve c) ts)"
  shows "list_all (\<lambda>s. is_Fin (sample_distance s)) (accumulate c (Fin a) previous ts) \<and>
    sorted_wrt (<) (map (\<lambda>s. real_of (sample_distance s)) (accumulate c (Fin a) previous ts)) \<and>
    (\<forall>s \<in> set (accumulate c (Fin a) previous ts).
       a + real_of (magnitude (Vector2_sub (eval_curve c (hd ts)) previous)) \<le>
       real_of (sample_distance s))"
  using assms
proof (induction ts arbitrary: a previous)
  case Nil
  then show ?case
    by simp
next
  case (Cons t ts)
  define p where "p = eval_curve c t"
  have p: "finite_Vector2 p"
    using Cons.prems(2) by (simp add: p_def)
  obtain m where m: "magnitude (Vector2_sub p previous) = Fin m" "0 \<le> m"
    using magnitude_difference [OF p Cons.prems(1)] by blast
  define rest where "rest = accumulate c (Fin (a + m)) p ts"
  have rows: "accumulate c (Fin a) previous (t # ts) =
      \<lparr>sample_t = t, sample_distance = Fin (a + m), sample_position = p,
       sample_tangent = normalized (evalDerivative c t)\<rparr> # rest"
    by (simp add: Let_def p_def [symmetric] m rest_def)
  have tail: "list_all (\<lambda>t. finite_Vector2 (eval_curve c t)) ts"
      "distinct_adj (map (eval_curve c) ts)"
    using Cons.prems(2,3) by (auto dest: distinct_adj_ConsD)
  have IH: "list_all (\<lambda>s. is_Fin (sample_distance s)) rest \<and>
      sorted_wrt (<) (map (\<lambda>s. real_of (sample_distance s)) rest) \<and>
      (\<forall>s \<in> set rest.
         (a + m) + real_of (magnitude (Vector2_sub (eval_curve c (hd ts)) p)) \<le>
         real_of (sample_distance s))"
    unfolding rest_def by (rule Cons.IH [OF p tail])
  have above: "\<forall>s \<in> set rest. a + m < real_of (sample_distance s)"
  proof (cases ts)
    case Nil
    then show ?thesis
      by (simp add: rest_def)
  next
    case (Cons t' ts')
    have q: "finite_Vector2 (eval_curve c t')"
      using tail(1) Cons by simp
    have differ: "eval_curve c t' \<noteq> p"
      using Cons.prems(3) Cons by (auto simp add: p_def)
    obtain m' where m': "magnitude (Vector2_sub (eval_curve c t') p) = Fin m'" "0 < m'"
      using magnitude_difference [OF q p] differ by force
    show ?thesis
      using IH m' by (auto simp add: Cons)
  qed
  show ?case
    unfolding rows list.sel using IH above by (auto simp add: p_def [symmetric] m)
qed

lemma sample_parameters_real:
  "sample_parameters N =
     (if N = 1 then [NaN] else map (\<lambda>i. Fin (real i / real (N - 1))) [0..<N])"
  by (auto simp add: sample_parameters_def)

lemma sample_parameters_wf:
  assumes "2 \<le> N"
  shows "list_all is_Fin (sample_parameters N)"
    and "sorted_wrt (<) (map real_of (sample_parameters N))"
    and "hd (sample_parameters N) = Fin 0" and "last (sample_parameters N) = Fin 1"
    and "sample_parameters N \<noteq> []"
proof -
  have params: "sample_parameters N = map (\<lambda>i. Fin (real i / real (N - 1))) [0..<N]"
    using assms by (simp add: sample_parameters_real)
  show "list_all is_Fin (sample_parameters N)"
    by (simp add: params list_all_iff)
  have "sorted_wrt (\<lambda>i j. real i / real (N - 1) < real j / real (N - 1)) [0..<N]"
    using assms by (intro sorted_wrt_mono_rel [OF _ sorted_wrt_upt]) (simp add: divide_strict_right_mono)
  then show "sorted_wrt (<) (map real_of (sample_parameters N))"
    by (simp add: params sorted_wrt_map comp_def)
  show "hd (sample_parameters N) = Fin 0"
    using assms by (simp add: params hd_map upt_conv_Cons)
  show "last (sample_parameters N) = Fin 1"
    using assms by (simp add: params last_map)
  show "sample_parameters N \<noteq> []"
    using assms by (auto simp add: params)
qed

lemma wf_build_samples:
  assumes N: "2 \<le> N"
    and finite: "list_all (\<lambda>t. finite_Vector2 (eval_curve c t)) (sample_parameters N)"
    and differ: "distinct_adj (map (eval_curve c) (sample_parameters N))"
  shows "wf_samples (real_of (sampled_length c N)) (build_samples c N)"
    and "is_Fin (sampled_length c N)"
proof -
  define rows where "rows = build_samples c N"
  note params = sample_parameters_wf [OF N]
  have first: "finite_Vector2 (eval_curve c (Fin 0))"
    using finite params(3,5) by (cases "sample_parameters N") auto
  have rows_def': "rows = accumulate c (Fin 0) (eval_curve c (Fin 0)) (sample_parameters N)"
    by (simp add: rows_def build_samples_def)
  have dist: "list_all (\<lambda>s. is_Fin (sample_distance s)) rows"
      "sorted_wrt (<) (map (\<lambda>s. real_of (sample_distance s)) rows)"
    using accumulate_distances [OF first finite differ, of 0] by (simp_all add: rows_def')
  have ts: "map sample_t rows = sample_parameters N"
    by (simp add: rows_def' accumulate_ts)
  have len: "length rows = N"
    by (simp add: rows_def length_build_samples)
  then have not_empty: "rows \<noteq> []"
    using N by auto
  have t_fin: "list_all (\<lambda>s. is_Fin (sample_t s)) rows"
    using params(1) ts [symmetric] by (simp add: list_all_iff)
  have t_sorted: "sorted_wrt (<) (map (\<lambda>s. real_of (sample_t s)) rows)"
    using params(2) ts [symmetric] by (simp add: comp_def)
  have t_first: "sample_t (hd rows) = Fin 0"
    using params(3) ts [symmetric] not_empty by (simp add: hd_map)
  have t_last: "sample_t (last rows) = Fin 1"
    using params(4) ts [symmetric] not_empty by (simp add: last_map)
  obtain t ts' where cons: "sample_parameters N = t # ts'"
    using params(5) by (cases "sample_parameters N") auto
  have "t = Fin 0"
    using params(3) cons by simp
  obtain m where m: "magnitude (Vector2_sub (eval_curve c (Fin 0)) (eval_curve c (Fin 0))) = Fin m"
      "m = 0"
    using magnitude_difference [OF first first] by auto
  have d_first: "sample_distance (hd rows) = Fin 0"
    by (simp add: rows_def' cons \<open>t = Fin 0\<close> Let_def m)
  have "is_Fin (sample_distance (last rows))"
    using dist(1) not_empty by (simp add: list_all_iff)
  moreover have total: "sampled_length c N = sample_distance (last rows)"
    using not_empty by (simp add: sampled_length_def rows_def [symmetric] split: list.splits)
  ultimately show "is_Fin (sampled_length c N)"
    by simp
  then have d_last: "sample_distance (last rows) = Fin (real_of (sampled_length c N))"
    using total is_Fin_real_of by simp
  have "list_all (\<lambda>s. is_Fin (sample_t s) \<and> is_Fin (sample_distance s)) rows"
    using t_fin dist(1) by (simp add: list_all_iff)
  then show "wf_samples (real_of (sampled_length c N)) (build_samples c N)"
    using len N dist(2) t_sorted t_first t_last d_first d_last
    by (simp add: wf_samples_def rows_def [symmetric])
qed

subsection \<open>Evaluation of the segments sampled at resolution 3\<close>

lemma sqrt_100: "sqrt 100 = 10"
  using real_sqrt_abs [of 10] by simp

lemma sample_parameters_3: "sample_parameters 3 = [Fin 0, Fin (1 / 2), Fin 1]"
  by (simp add: sample_parameters_def upt_rec numeral_3_eq_3)

lemma bracket_0_2:
  "bracket samples d 0 (Suc (Suc 0)) = (if sample_distance (samples ! 1) \<le> d then 1 else 0)"
  by (simp add: bracket.simps [of samples d 0 "Suc (Suc 0)"]
      bracket.simps [of samples d "Suc 0" "Suc (Suc 0)"] bracket.simps [of samples d 0 "Suc 0"]
      del: less_eq_number_def)

lemma number_NaN_right: "number_plus a NaN = NaN" "number_times a NaN = NaN"
  by (cases a; simp)+

lemmas build_simps =
  QuadBezierSegment_defs sampled_length_def build_samples_def sample_parameters_3
  QuadBezier_curve_def UniformPolynomialCurveSampler_new_def arcLength_def Vector2_ops
  magnitude_def

lemma curved_build_samples: "build_samples (curve curved_segment) 3 = curved_samples"
  by (simp add: curved_segment_def curved_samples_def build_simps sqrt_25 sqrt_100)

lemma curved_length: "length_seg curved_segment = Fin 15"
  by (simp add: curved_segment_def build_simps sqrt_25 sqrt_100)

lemma curved_sampler:
  "pointSampler curved_segment = Some (UniformPolynomialCurveSampler_of (Fin 15) curved_samples)"
  by (simp add: curved_segment_def curved_samples_def build_simps sqrt_25 sqrt_100)

lemma retracing_build_samples: "build_samples (curve retracing_segment) 3 = retracing_samples"
  by (simp add: retracing_segment_def retracing_samples_def build_simps)

lemma retracing_length: "length_seg retracing_segment = Fin 2"
  by (simp add: retracing_segment_def build_simps)

lemma retracing_sampler:
  "pointSampler retracing_segment =
   Some (UniformPolynomialCurveSampler_of (Fin 2) retracing_samples)"
  by (simp add: retracing_segment_def retracing_samples_def build_simps)



lemma retracing_distanceToT:
  "distanceToT (UniformPolynomialCurveSampler_of (Fin 2) retracing_samples) (Fin 1) = Fin (1 / 4)"
  "distanceToT (UniformPolynomialCurveSampler_of (Fin 2) retracing_samples) (Fin 2) = NaN"
  by (simp_all add: UniformPolynomialCurveSampler_of_def distanceToT_samples_def
      retracing_samples_def clamp_def bracket_0_2 proportion_def Let_def)

lemma retracing_pointAtDistance:
  "pointAtDistance (UniformPolynomialCurveSampler_of (Fin 2) retracing_samples) (Fin 2) =
   \<lparr>position = \<lparr>x_coord = NaN, y_coord = NaN\<rparr>, tangent_cp = \<lparr>x_coord = NaN, y_coord = NaN\<rparr>\<rparr>"
  "pointAtDistance (UniformPolynomialCurveSampler_of (Fin 2) retracing_samples) (Fin 4) =
   \<lparr>position = \<lparr>x_coord = NaN, y_coord = NaN\<rparr>, tangent_cp = \<lparr>x_coord = NaN, y_coord = NaN\<rparr>\<rparr>"
  by (simp_all add: UniformPolynomialCurveSampler_of_def pointAtDistance_samples_def
      retracing_samples_def clamp_def bracket_0_2 proportion_def Let_def Vector2_ops
      number_NaN_right)


lemma curved_distanceToT:
  "distanceToT (UniformPolynomialCurveSampler_of (Fin 15) curved_samples) (Fin 4) = Fin (2 / 5)"
  "distanceToT (UniformPolynomialCurveSampler_of (Fin 15) curved_samples) (Fin 10) = Fin (3 / 4)"
  by (simp_all add: UniformPolynomialCurveSampler_of_def distanceToT_samples_def
      curved_samples_def clamp_def bracket_0_2 proportion_def Let_def)

lemma wf_curved_samples: "wf_samples 15 curved_samples"
  by (simp add: wf_samples_def curved_samples_def)

lemma retracing_not_wf: "\<not> wf_samples 2 retracing_samples"
  by (simp add: wf_samples_def retracing_samples_def)

subsection \<open>Clamping and the range of the sampler\<close>

lemma wf_samples_positive:
  assumes "wf_samples arc samples"
  shows "0 < arc"
  using wf_samples_distance_less [OF assms, of 0 "length samples - 1"]
    wf_samples_length [OF assms] wf_samples_first(1) [OF assms] wf_samples_last(1) [OF assms]
  by simp


lemma clamp_idem:
  assumes "0 \<le> arc"
  shows "clamp (Fin 0) (Fin arc) (clamp (Fin 0) (Fin arc) d) = clamp (Fin 0) (Fin arc) d"
  using assms by (cases d) (auto simp add: clamp_def)


lemma pointAtDistance_samples_clamp:
  assumes "0 \<le> arc"
  shows "pointAtDistance_samples (Fin arc) samples d =
    pointAtDistance_samples (Fin arc) samples (clamp (Fin 0) (Fin arc) d)"
  by (simp add: pointAtDistance_samples_def clamp_idem [OF assms] Let_def)

lemma clamp_fraction:
  assumes "0 < arc"
  shows "fraction < 1 \<Longrightarrow> \<exists>r. clamp (Fin 0) (Fin arc) (Fin arc * fraction) = Fin r \<and> 0 \<le> r \<and> r < arc"
    and "1 \<le> fraction \<Longrightarrow> clamp (Fin 0) (Fin arc) (Fin arc * fraction) = Fin arc"
    and "fraction < 0 \<Longrightarrow> clamp (Fin 0) (Fin arc) (Fin arc * fraction) = Fin 0"
    and "fraction \<noteq> NaN \<Longrightarrow> Fin arc * fraction \<noteq> NaN"
proof -
  show "fraction < 1 \<Longrightarrow> \<exists>r. clamp (Fin 0) (Fin arc) (Fin arc * fraction) = Fin r \<and> 0 \<le> r \<and> r < arc"
    using assms
    by (cases fraction) (auto simp add: clamp_def signed_infinity_def mult_less_cancel_left2)
  show "1 \<le> fraction \<Longrightarrow> clamp (Fin 0) (Fin arc) (Fin arc * fraction) = Fin arc"
    using assms
    by (cases fraction)
       (auto simp add: clamp_def signed_infinity_def mult_less_cancel_left1 not_less
          mult_le_0_iff)
  show "fraction < 0 \<Longrightarrow> clamp (Fin 0) (Fin arc) (Fin arc * fraction) = Fin 0"
    using assms
    by (cases fraction) (auto simp add: clamp_def signed_infinity_def mult_less_0_iff)
  show "fraction \<noteq> NaN \<Longrightarrow> Fin arc * fraction \<noteq> NaN"
    using assms by (cases fraction) (auto simp add: signed_infinity_def)
qed





lemma segment_sampled_table:
  assumes "segment_sampled N this"
  shows "\<exists>arc. length_seg this = Fin arc \<and> 0 < arc \<and>
    wf_samples arc (build_samples (curve this) N) \<and>
    list_all (\<lambda>s. finite_Vector2 (sample_position s)) (build_samples (curve this) N) \<and>
    pointSampler this =
      Some (UniformPolynomialCurveSampler_of (Fin arc) (build_samples (curve this) N))"
proof -
  define arc where "arc = real_of (sampled_length (curve this) N)"
  have N: "2 \<le> N"
    and finite: "list_all (\<lambda>t. finite_Vector2 (eval_curve (curve this) t)) (sample_parameters N)"
    and differ: "distinct_adj (map (eval_curve (curve this)) (sample_parameters N))"
    using assms by (simp_all add: segment_sampled_def)
  have wf: "wf_samples arc (build_samples (curve this) N)"
    unfolding arc_def by (rule wf_build_samples(1) [OF N finite differ])
  have len: "length_seg this = Fin arc"
    using wf_build_samples(2) [OF N finite differ] assms
    by (simp add: arc_def is_Fin_real_of segment_sampled_def)
  have "map sample_position (build_samples (curve this) N) =
      map (eval_curve (curve this)) (sample_parameters N)"
    by (simp add: build_samples_def accumulate_positions)
  then have positions: "list_all (\<lambda>s. finite_Vector2 (sample_position s))
      (build_samples (curve this) N)"
    using finite by (metis (mono_tags, lifting) comp_apply list.pred_map list_all_cong)
  have sampler: "pointSampler this =
      Some (UniformPolynomialCurveSampler_of (Fin arc) (build_samples (curve this) N))"
    using assms by (simp add: segment_sampled_def len [symmetric])
  show ?thesis
    using len wf_samples_positive [OF wf] wf positions sampler by blast
qed

subsection \<open>The claims about the sampler\<close>

lemma curved_sampled: "segment_sampled 3 curved_segment"
proof -
  have at_samples: "map (eval_curve (curve curved_segment)) (sample_parameters 3) =
      [\<lparr>x_coord = Fin 0, y_coord = Fin 0\<rparr>, \<lparr>x_coord = Fin 3, y_coord = Fin 4\<rparr>,
       \<lparr>x_coord = Fin 11, y_coord = Fin 10\<rparr>]"
    by (simp add: sample_parameters_3 curved_segment_def curve_QuadBezierSegment
        QuadBezier_curve_def Vector2_ops)
  have "list_all finite_Vector2 (map (eval_curve (curve curved_segment)) (sample_parameters 3))"
    unfolding at_samples by (simp add: finite_Vector2_def)
  then have finite: "list_all (\<lambda>t. finite_Vector2 (eval_curve (curve curved_segment) t))
      (sample_parameters 3)"
    by (simp add: list.pred_map comp_def)
  have differ: "distinct_adj (map (eval_curve (curve curved_segment)) (sample_parameters 3))"
    unfolding at_samples by simp
  have len: "length_seg curved_segment = sampled_length (curve curved_segment) 3"
    by (simp add: curved_length sampled_length_def curved_build_samples curved_samples_def)
  show ?thesis
    unfolding segment_sampled_def
    using finite differ len
    by (simp add: curved_sampler curved_length curved_build_samples)
qed

lemma retracing_eval_1:
  "position (eval retracing_segment (Fin 1)) = \<lparr>x_coord = Fin 2, y_coord = Fin 0\<rparr>"
  by (simp add: eval_def retracing_segment_def curve_QuadBezierSegment QuadBezier_curve_def
      Vector2_ops)

text \<open>
  C6: for a sampler over a table that satisfies the data model's invariant, and distances
  d1 < d2 in [0, length], the parameter for d1 is at most the parameter for d2. The
  invariant is needed: the table of the segment (0,0), (3,0), (2,0) has the distances
  0, 2, 2, and there \<open>distanceToT(1)\<close> is 1/4 while \<open>distanceToT(2)\<close> is \<open>NaN\<close>.
\<close>

theorem distanceToT_monotone:
  assumes "pointSampler this = Some sampler"
    and "sampler = UniformPolynomialCurveSampler_of (length_seg this) samples"
    and "length_seg this = Fin arc" and "wf_samples arc samples"
    and "0 \<le> d1" and "d1 < d2" and "d2 \<le> arc"
  shows "distanceToT sampler (Fin d1) \<le> distanceToT sampler (Fin d2)"
  using distanceToT_samples_mono [OF assms(4-7)] assms(2,3)
  by (simp add: UniformPolynomialCurveSampler_of_def)

theorem distanceToT_monotone_witness:
  "pointSampler curved_segment =
     Some (UniformPolynomialCurveSampler_of (length_seg curved_segment) curved_samples) \<and>
   length_seg curved_segment = Fin 15 \<and> wf_samples 15 curved_samples \<and>
   (0 :: real) \<le> 4 \<and> (4 :: real) < 10 \<and> (10 :: real) \<le> 15 \<and>
   distanceToT (UniformPolynomialCurveSampler_of (Fin 15) curved_samples) (Fin 4) = Fin (2 / 5) \<and>
   distanceToT (UniformPolynomialCurveSampler_of (Fin 15) curved_samples) (Fin 10) = Fin (3 / 4) \<and>
   distanceToT (UniformPolynomialCurveSampler_of (Fin 15) curved_samples) (Fin 4) \<le>
   distanceToT (UniformPolynomialCurveSampler_of (Fin 15) curved_samples) (Fin 10)"
proof -
  have sampler: "pointSampler curved_segment =
      Some (UniformPolynomialCurveSampler_of (length_seg curved_segment) curved_samples)"
    by (simp add: curved_sampler curved_length)
  have "distanceToT (UniformPolynomialCurveSampler_of (length_seg curved_segment) curved_samples)
      (Fin 4) \<le>
    distanceToT (UniformPolynomialCurveSampler_of (length_seg curved_segment) curved_samples)
      (Fin 10)"
    by (rule distanceToT_monotone [OF sampler refl curved_length wf_curved_samples]) simp_all
  then show ?thesis
    using sampler wf_curved_samples
    by (simp only: curved_length curved_distanceToT) simp
qed

theorem distanceToT_not_monotone:
  "pointSampler retracing_segment =
     Some (UniformPolynomialCurveSampler_of (Fin 2) retracing_samples) \<and>
   length_seg retracing_segment = Fin 2 \<and>
   distanceToT (UniformPolynomialCurveSampler_of (Fin 2) retracing_samples) (Fin 1) = Fin (1 / 4) \<and>
   distanceToT (UniformPolynomialCurveSampler_of (Fin 2) retracing_samples) (Fin 2) = NaN \<and>
   \<not> distanceToT (UniformPolynomialCurveSampler_of (Fin 2) retracing_samples) (Fin 1) \<le>
     distanceToT (UniformPolynomialCurveSampler_of (Fin 2) retracing_samples) (Fin 2)"
  by (simp add: retracing_sampler retracing_length retracing_distanceToT)

text \<open>
  C4: for a segment whose length and sampler come from sampling its curve at N
  parameters, with finite positions at the sampled parameters and no two consecutive
  samples at the same position, \<open>getPoint(0)\<close> is at the position of \<open>eval(0)\<close> and
  \<open>getPoint(1)\<close> at the position of \<open>eval(1)\<close>. The arithmetic is exact here, so the
  positions are equal. The condition on consecutive samples is needed: on the segment
  (0,0), (3,0), (2,0), sampled at resolution 3, \<open>getPoint(1)\<close> has the position \<open>NaN\<close>
  while \<open>eval(1)\<close> is at (2,0).
\<close>

theorem getPoint_endpoints:
  assumes "2 \<le> N"
    and "pointSampler this =
      Some (UniformPolynomialCurveSampler_of (length_seg this) (build_samples (curve this) N))"
    and "length_seg this = sampled_length (curve this) N"
    and "list_all (\<lambda>t. finite_Vector2 (eval_curve (curve this) t)) (sample_parameters N)"
    and "distinct_adj (map (eval_curve (curve this)) (sample_parameters N))"
  shows "(\<exists>p. getPoint this 0 = Inr p \<and> position p = position (eval this 0)) \<and>
         (\<exists>p. getPoint this 1 = Inr p \<and> position p = position (eval this 1))"
proof -
  define arc where "arc = real_of (sampled_length (curve this) N)"
  have wf: "wf_samples arc (build_samples (curve this) N)"
    unfolding arc_def by (rule wf_build_samples(1) [OF assms(1,4,5)])
  have len: "length_seg this = Fin arc"
    using wf_build_samples(2) [OF assms(1,4,5)] assms(3) by (simp add: arc_def is_Fin_real_of)
  have "map sample_position (build_samples (curve this) N) =
      map (eval_curve (curve this)) (sample_parameters N)"
    by (simp add: build_samples_def accumulate_positions)
  then have finite: "list_all (\<lambda>s. finite_Vector2 (sample_position s))
      (build_samples (curve this) N)"
    using assms(4) by (metis (mono_tags, lifting) comp_apply list.pred_map list_all_cong)
  show ?thesis
    using pointAtDistance_samples_first [OF wf finite]
      pointAtDistance_samples_last [OF wf finite]
      build_samples_positions [OF assms(1), of "curve this"]
    by (simp add: getPoint_def assms(2) len arcLength_def UniformPolynomialCurveSampler_of_def
        eval_def)
qed

theorem getPoint_endpoints_witness:
  "(2 :: nat) \<le> 2 \<and>
   pointSampler example_segment =
     Some (UniformPolynomialCurveSampler_of (length_seg example_segment)
       (build_samples (curve example_segment) 2)) \<and>
   length_seg example_segment = sampled_length (curve example_segment) 2 \<and>
   list_all (\<lambda>t. finite_Vector2 (eval_curve (curve example_segment) t)) (sample_parameters 2) \<and>
   distinct_adj (map (eval_curve (curve example_segment)) (sample_parameters 2)) \<and>
   position (eval example_segment 0) = \<lparr>x_coord = Fin 0, y_coord = Fin 0\<rparr> \<and>
   position (eval example_segment 1) = \<lparr>x_coord = Fin 3, y_coord = Fin 4\<rparr> \<and>
   (\<exists>p. getPoint example_segment 0 = Inr p \<and> position p = \<lparr>x_coord = Fin 0, y_coord = Fin 0\<rparr>) \<and>
   (\<exists>p. getPoint example_segment 1 = Inr p \<and> position p = \<lparr>x_coord = Fin 3, y_coord = Fin 4\<rparr>)"
proof -
  have N: "(2 :: nat) \<le> 2"
    by simp
  have sampler: "pointSampler example_segment =
     Some (UniformPolynomialCurveSampler_of (length_seg example_segment)
       (build_samples (curve example_segment) 2))"
    by (simp add: example_sampler example_length example_build_samples)
  have len: "length_seg example_segment = sampled_length (curve example_segment) 2"
    by (simp add: example_length sampled_length_def example_build_samples example_samples_def)
  have at_samples: "map (eval_curve (curve example_segment)) (sample_parameters 2) =
      [\<lparr>x_coord = Fin 0, y_coord = Fin 0\<rparr>, \<lparr>x_coord = Fin 3, y_coord = Fin 4\<rparr>]"
    by (simp add: sample_parameters_2 example_segment_def curve_QuadBezierSegment
        QuadBezier_curve_def Vector2_ops)
  have finite: "list_all (\<lambda>t. finite_Vector2 (eval_curve (curve example_segment) t))
      (sample_parameters 2)"
    by (simp add: sample_parameters_2 example_segment_def curve_QuadBezierSegment
        QuadBezier_curve_def Vector2_ops finite_Vector2_def)
  have differ: "distinct_adj (map (eval_curve (curve example_segment)) (sample_parameters 2))"
    by (simp add: at_samples)
  have ends: "position (eval example_segment 0) = \<lparr>x_coord = Fin 0, y_coord = Fin 0\<rparr>"
      "position (eval example_segment 1) = \<lparr>x_coord = Fin 3, y_coord = Fin 4\<rparr>"
    by (simp_all add: eval_def example_segment_def curve_QuadBezierSegment QuadBezier_curve_def
        Vector2_ops)
  show ?thesis
    using getPoint_endpoints [OF N sampler len finite differ] sampler len finite differ
    by (simp only: ends) simp
qed

theorem getPoint_endpoint_NaN:
  "getPoint retracing_segment 1 =
     Inr \<lparr>position = \<lparr>x_coord = NaN, y_coord = NaN\<rparr>,
          tangent_cp = \<lparr>x_coord = NaN, y_coord = NaN\<rparr>\<rparr> \<and>
   position (eval retracing_segment 1) = \<lparr>x_coord = Fin 2, y_coord = Fin 0\<rparr>"
  by (simp add: getPoint_def retracing_sampler retracing_length arcLength_def
      retracing_pointAtDistance retracing_eval_1 Let_def)

text \<open>
  C5: \<open>getPoint\<close> returns the sampler's point at the distance fraction * length. The
  sampler clamps the distance to [0, length]: on a segment sampled with finite positions
  and no two consecutive samples at the same position, a fraction above 1 gives the
  point of fraction 1, at the position of \<open>eval(1)\<close>, and a fraction below 0 the point of
  fraction 0, at the position of \<open>eval(0)\<close>. The condition is needed: on the segment
  (0,0), (3,0), (2,0) the point of fraction 2 has the position \<open>NaN\<close>.
\<close>

theorem getPoint_delegates_and_clamps:
  "(pointSampler this = Some sampler \<longrightarrow>
      getPoint this fraction = Inr (pointAtDistance sampler (fraction * length_seg this))) \<and>
   (segment_sampled N this \<longrightarrow>
      (1 < fraction \<longrightarrow>
         getPoint this fraction = getPoint this 1 \<and>
         (\<exists>p. getPoint this fraction = Inr p \<and> position p = position (eval this 1))) \<and>
      (fraction < 0 \<longrightarrow>
         getPoint this fraction = getPoint this 0 \<and>
         (\<exists>p. getPoint this fraction = Inr p \<and> position p = position (eval this 0))))"
proof (intro conjI impI)
  assume "pointSampler this = Some sampler"
  then show "getPoint this fraction = Inr (pointAtDistance sampler (fraction * length_seg this))"
    by (simp add: getPoint_def arcLength_def number_times_commute Let_def)
next
  assume sampled: "segment_sampled N this"
  then obtain arc where arc: "length_seg this = Fin arc" "0 < arc"
      "wf_samples arc (build_samples (curve this) N)"
      "list_all (\<lambda>s. finite_Vector2 (sample_position s)) (build_samples (curve this) N)"
      "pointSampler this =
        Some (UniformPolynomialCurveSampler_of (Fin arc) (build_samples (curve this) N))"
    using segment_sampled_table by blast
  have N: "2 \<le> N"
    using sampled by (simp add: segment_sampled_def)
  have point: "getPoint this f =
      Inr (pointAtDistance_samples (Fin arc) (build_samples (curve this) N)
             (clamp (Fin 0) (Fin arc) (Fin arc * f)))" for f
    using pointAtDistance_samples_clamp [of arc "build_samples (curve this) N" "Fin arc * f"]
      arc(2)
    by (simp add: getPoint_def arc(1,5) arcLength_def UniformPolynomialCurveSampler_of_def
        Let_def)
  have one: "clamp (Fin 0) (Fin arc) (Fin arc * 1) = Fin arc"
    using clamp_fraction(2) [OF arc(2), of 1] by simp
  have zero: "clamp (Fin 0) (Fin arc) (Fin arc * 0) = Fin 0"
    using arc(2) by (simp add: clamp_def)
  {
    assume "1 < fraction"
    then have "1 \<le> fraction"
      by simp
    then have "clamp (Fin 0) (Fin arc) (Fin arc * fraction) = Fin arc"
      by (rule clamp_fraction(2) [OF arc(2)])
    then have at_end: "getPoint this fraction =
        Inr (pointAtDistance_samples (Fin arc) (build_samples (curve this) N) (Fin arc))"
      by (simp only: point)
    then show "getPoint this fraction = getPoint this 1"
      by (simp only: point [of 1] one)
    show "\<exists>p. getPoint this fraction = Inr p \<and> position p = position (eval this 1)"
      using at_end pointAtDistance_samples_last [OF arc(3,4)]
        build_samples_positions(2) [OF N, of "curve this"]
      by (simp add: eval_def)
  }
  {
    assume "fraction < 0"
    then have "clamp (Fin 0) (Fin arc) (Fin arc * fraction) = Fin 0"
      by (rule clamp_fraction(3) [OF arc(2)])
    then have at_start: "getPoint this fraction =
        Inr (pointAtDistance_samples (Fin arc) (build_samples (curve this) N) (Fin 0))"
      by (simp only: point)
    then show "getPoint this fraction = getPoint this 0"
      by (simp only: point [of 0] zero)
    show "\<exists>p. getPoint this fraction = Inr p \<and> position p = position (eval this 0)"
      using at_start pointAtDistance_samples_first [OF arc(3,4)]
        build_samples_positions(1) [OF N, of "curve this"]
      by (simp add: eval_def)
  }
qed

theorem getPoint_delegates_and_clamps_witness:
  "pointSampler curved_segment =
     Some (UniformPolynomialCurveSampler_of (Fin 15) curved_samples) \<and>
   segment_sampled 3 curved_segment \<and>
   (1 :: number) < Fin 2 \<and> PosInf > (1 :: number) \<and> Fin (- 1) < (0 :: number) \<and>
   getPoint curved_segment (Fin (1 / 3)) =
     Inr (pointAtDistance (UniformPolynomialCurveSampler_of (Fin 15) curved_samples) (Fin 5)) \<and>
   getPoint curved_segment (Fin 2) = getPoint curved_segment 1 \<and>
   (\<exists>p. getPoint curved_segment (Fin 2) = Inr p \<and>
        position p = \<lparr>x_coord = Fin 11, y_coord = Fin 10\<rparr>) \<and>
   (\<exists>p. getPoint curved_segment PosInf = Inr p \<and>
        position p = \<lparr>x_coord = Fin 11, y_coord = Fin 10\<rparr>) \<and>
   getPoint curved_segment (Fin (- 1)) = getPoint curved_segment 0 \<and>
   (\<exists>p. getPoint curved_segment (Fin (- 1)) = Inr p \<and>
        position p = \<lparr>x_coord = Fin 0, y_coord = Fin 0\<rparr>)"
proof -
  have ends: "position (eval curved_segment 0) = \<lparr>x_coord = Fin 0, y_coord = Fin 0\<rparr>"
      "position (eval curved_segment 1) = \<lparr>x_coord = Fin 11, y_coord = Fin 10\<rparr>"
    by (simp_all add: eval_def curved_segment_def curve_QuadBezierSegment QuadBezier_curve_def
        Vector2_ops)
  have order: "(1 :: number) < Fin 2" "PosInf > (1 :: number)" "Fin (- 1) < (0 :: number)"
    by simp_all
  have "getPoint curved_segment (Fin (1 / 3)) =
      Inr (pointAtDistance (UniformPolynomialCurveSampler_of (Fin 15) curved_samples)
             (Fin (1 / 3) * length_seg curved_segment))"
    using getPoint_delegates_and_clamps [of curved_segment
        "UniformPolynomialCurveSampler_of (Fin 15) curved_samples" "Fin (1 / 3)" 3]
      curved_sampler
    by blast
  then have inside: "getPoint curved_segment (Fin (1 / 3)) =
      Inr (pointAtDistance (UniformPolynomialCurveSampler_of (Fin 15) curved_samples) (Fin 5))"
    by (simp add: curved_length)
  have above: "getPoint curved_segment (Fin 2) = getPoint curved_segment 1 \<and>
      (\<exists>p. getPoint curved_segment (Fin 2) = Inr p \<and>
           position p = position (eval curved_segment 1))"
    using getPoint_delegates_and_clamps [of curved_segment
        "UniformPolynomialCurveSampler_of (Fin 15) curved_samples" "Fin 2" 3]
      curved_sampled order(1)
    by blast
  have infinite: "\<exists>p. getPoint curved_segment PosInf = Inr p \<and>
      position p = position (eval curved_segment 1)"
    using getPoint_delegates_and_clamps [of curved_segment
        "UniformPolynomialCurveSampler_of (Fin 15) curved_samples" PosInf 3]
      curved_sampled order(2)
    by blast
  have below: "getPoint curved_segment (Fin (- 1)) = getPoint curved_segment 0 \<and>
      (\<exists>p. getPoint curved_segment (Fin (- 1)) = Inr p \<and>
           position p = position (eval curved_segment 0))"
    using getPoint_delegates_and_clamps [of curved_segment
        "UniformPolynomialCurveSampler_of (Fin 15) curved_samples" "Fin (- 1)" 3]
      curved_sampled order(3)
    by blast
  show ?thesis
    using curved_sampler curved_sampled order inside above [unfolded ends]
      infinite [unfolded ends] below [unfolded ends]
    by blast
qed

theorem getPoint_clamped_NaN:
  "(1 :: number) < Fin 2 \<and>
   getPoint retracing_segment (Fin 2) =
     Inr \<lparr>position = \<lparr>x_coord = NaN, y_coord = NaN\<rparr>,
          tangent_cp = \<lparr>x_coord = NaN, y_coord = NaN\<rparr>\<rparr> \<and>
   position (eval retracing_segment 1) = \<lparr>x_coord = Fin 2, y_coord = Fin 0\<rparr>"
  by (simp add: getPoint_def retracing_sampler retracing_length arcLength_def
      retracing_pointAtDistance retracing_eval_1 Let_def)




end
